theory Spec2Isabelle
  imports Complex_Main "HOL-Library.Word"
begin

unbundle bit_operations_syntax

section \<open>JavaScript values used by the SDK\<close>

text \<open>
  A JavaScript string is a sequence of 16-bit code units; \<open>length\<close>, \<open>slice\<close>,
  \<open>startsWith\<close> and \<open>charCodeAt\<close> all count code units. String literals of the
  source are ASCII and are written \<open>ascii ''...''\<close>.
\<close>

type_synonym jschar = "16 word"
type_synonym jsstring = "jschar list"
type_synonym bytes = "8 word list"

definition ascii :: "string \<Rightarrow> jsstring" where
  "ascii s = map of_char s"

text \<open>\<open>s.startsWith(p)\<close> and \<open>s.slice(n)\<close> for \<open>0 \<le> n\<close>.\<close>

definition startsWith :: "jsstring \<Rightarrow> jsstring \<Rightarrow> bool" where
  "startsWith s p = (take (length p) s = p)"

definition sliceFrom :: "jsstring \<Rightarrow> nat \<Rightarrow> jsstring" where
  "sliceFrom s n = drop n s"

text \<open>
  \<open>s.charCodeAt(i)\<close> as an operand of a bitwise operator: the code unit as a 32-bit
  integer; outside the string JavaScript yields \<open>NaN\<close>, which the bitwise operators
  read as \<open>0\<close>.
\<close>

definition charCodeAt :: "jsstring \<Rightarrow> nat \<Rightarrow> 32 word" where
  "charCodeAt s i = (if i < length s then ucast (s ! i) else 0)"

subsection \<open>Numbers\<close>

text \<open>
  The numbers this code computes with are integral (Unix seconds, milliseconds, HTTP
  status codes). They are modelled as \<open>int\<close>, and \<open>NaN\<close> as \<open>None\<close>. A double
  represents every integer of magnitude below \<open>2 ^ 53\<close> exactly, and \<open>Date.now()\<close>
  never exceeds \<open>8.64 * 10 ^ 15\<close>, so on every timestamp that can lie within the
  tolerance window of the clock the model and the doubles agree.

  \<open>parseInt(s, 10)\<close> follows ECMA-262: skip leading white space, read an optional
  sign, take the longest prefix of decimal digits; no digit gives \<open>NaN\<close>.
\<close>

definition isStrWhiteSpaceChar :: "jschar \<Rightarrow> bool" where
  "isStrWhiteSpaceChar c =
     ((0x09 \<le> c \<and> c \<le> 0x0D) \<or> c = 0x20 \<or> c = 0xA0 \<or> c = 0x1680 \<or>
      (0x2000 \<le> c \<and> c \<le> 0x200A) \<or> c = 0x2028 \<or> c = 0x2029 \<or> c = 0x202F \<or>
      c = 0x205F \<or> c = 0x3000 \<or> c = 0xFEFF)"

definition isDecimalDigit :: "jschar \<Rightarrow> bool" where
  "isDecimalDigit c = (0x30 \<le> c \<and> c \<le> 0x39)"

definition digitValue :: "jschar \<Rightarrow> int" where
  "digitValue c = uint c - 48"

definition digitsToInt :: "jsstring \<Rightarrow> int" where
  "digitsToInt Z = foldl (\<lambda>acc c. 10 * acc + digitValue c) 0 Z"

definition parseInt10 :: "jsstring \<Rightarrow> int option" where
  "parseInt10 inputString =
     (let S = dropWhile isStrWhiteSpaceChar inputString;
          sign = (if S \<noteq> [] \<and> hd S = 0x2D then - 1 else 1);
          S' = (if S \<noteq> [] \<and> (hd S = 0x2B \<or> hd S = 0x2D) then tl S else S);
          Z = takeWhile isDecimalDigit S'
      in if Z = [] then None else Some (sign * digitsToInt Z))"

text \<open>\<open>String(n)\<close> for an integral number: the decimal digits, with a leading minus sign.\<close>

definition digitChar :: "nat \<Rightarrow> jschar" where
  "digitChar d = of_nat (48 + d)"

fun natToDigits :: "nat \<Rightarrow> jsstring" where
  "natToDigits n = (if n < 10 then [digitChar n] else natToDigits (n div 10) @ [digitChar (n mod 10)])"

declare natToDigits.simps [simp del]

definition numberToString :: "int \<Rightarrow> jsstring" where
  "numberToString n = (if n < 0 then 0x2D # natToDigits (nat (- n)) else natToDigits (nat n))"

section \<open>Cryptographic utilities (services/crypto.ts)\<close>

definition SIGNATURE_VERSION :: jsstring where
  "SIGNATURE_VERSION = ascii ''v1''"

definition TIMESTAMP_TOLERANCE_SECONDS :: int where
  "TIMESTAMP_TOLERANCE_SECONDS = 300"

text \<open>
  The Web Crypto API and \<open>TextEncoder\<close> are supplied by the platform and are parameters
  of the model: \<open>textEncode\<close> is \<open>new TextEncoder().encode\<close>, and \<open>hmacSha256 key msg\<close>
  is \<open>crypto.subtle.importKey\<close> of the raw key followed by \<open>crypto.subtle.sign\<close>. Both
  Web Crypto calls return promises; a rejection (Web Crypto rejects an empty key, for
  one) is \<open>Inl\<close>, and an \<open>await\<close> of it raises. Of the exceptions, \<open>JsError name message\<close>
  is an error raised by the language itself, such as a \<open>TypeError\<close>.
\<close>

datatype exn =
    HookRelayConfigError jsstring
  | WebCryptoRejection jsstring
  | JsError jsstring jsstring

record webcrypto =
  textEncode :: "jsstring \<Rightarrow> bytes"
  hmacSha256 :: "bytes \<Rightarrow> bytes \<Rightarrow> exn + bytes"

text \<open>\<open>b.toString(16).padStart(2, '0')\<close> on a byte.\<close>

definition hexDigitChar :: "nat \<Rightarrow> jschar" where
  "hexDigitChar d = (if d < 10 then of_nat (48 + d) else of_nat (97 + (d - 10)))"

fun toString16 :: "nat \<Rightarrow> jsstring" where
  "toString16 n = (if n < 16 then [hexDigitChar n] else toString16 (n div 16) @ [hexDigitChar (n mod 16)])"

declare toString16.simps [simp del]

definition padStart :: "jsstring \<Rightarrow> nat \<Rightarrow> jschar \<Rightarrow> jsstring" where
  "padStart s targetLength c = replicate (targetLength - length s) c @ s"

definition byteToHex :: "8 word \<Rightarrow> jsstring" where
  "byteToHex b = padStart (toString16 (unat b)) 2 0x30"

text \<open>
  The body of \<open>signPayload\<close> between the construction of \<open>signedPayload\<close> and the
  final template string: import the key, sign, hex-encode the digest.
\<close>

definition hmacHexDigest :: "webcrypto \<Rightarrow> jsstring \<Rightarrow> jsstring \<Rightarrow> exn + jsstring" where
  "hmacHexDigest wc signedPayload secret =
     (case hmacSha256 wc (textEncode wc secret) (textEncode wc signedPayload) of
        Inl e \<Rightarrow> Inl e
      | Inr signature \<Rightarrow> Inr (concat (map byteToHex signature)))"

definition signPayload :: "webcrypto \<Rightarrow> int \<Rightarrow> jsstring \<Rightarrow> jsstring \<Rightarrow> exn + jsstring" where
  "signPayload wc timestamp payload secret =
     (let signedPayload = numberToString timestamp @ ascii ''.'' @ payload
      in case hmacHexDigest wc signedPayload secret of
           Inl e \<Rightarrow> Inl e
         | Inr hexDigest \<Rightarrow> Inr (SIGNATURE_VERSION @ ascii ''='' @ hexDigest))"

text \<open>
  \<open>timingSafeEqual\<close>: the length check, then the loop
  \<open>for (let i = 0; i < a.length; i++) result |= a.charCodeAt(i) ^ b.charCodeAt(i)\<close>.
\<close>

function timingSafeEqual_loop :: "jsstring \<Rightarrow> jsstring \<Rightarrow> nat \<Rightarrow> 32 word \<Rightarrow> 32 word" where
  "timingSafeEqual_loop a b i result =
     (if i < length a
      then timingSafeEqual_loop a b (i + 1) (result OR (charCodeAt a i XOR charCodeAt b i))
      else result)"
  by pat_completeness auto
termination
  by (relation "measure (\<lambda>(a, b, i, result). length a - i)") auto

declare timingSafeEqual_loop.simps [simp del]

definition timingSafeEqual :: "jsstring \<Rightarrow> jsstring \<Rightarrow> bool" where
  "timingSafeEqual a b =
     (if length a \<noteq> length b then False
      else timingSafeEqual_loop a b 0 0 = 0)"

text \<open>
  \<open>verifySignature\<close>. \<open>dateNow\<close> is the value of \<open>Date.now()\<close> (milliseconds) read on
  entry; \<open>Math.floor(Date.now() / 1000)\<close> is the floor division.
\<close>

definition verifySignature ::
  "webcrypto \<Rightarrow> int \<Rightarrow> jsstring \<Rightarrow> jsstring \<Rightarrow> jsstring \<Rightarrow> jsstring \<Rightarrow> exn + bool" where
  "verifySignature wc dateNow timestamp payload signatureHeader secret =
     (let now = dateNow div 1000 in
      case parseInt10 timestamp of
        None \<Rightarrow> Inr False
      | Some ts \<Rightarrow>
          if abs (now - ts) > TIMESTAMP_TOLERANCE_SECONDS then Inr False
          else if \<not> startsWith signatureHeader (SIGNATURE_VERSION @ ascii ''='') then Inr False
          else
            let expectedSignature = sliceFrom signatureHeader (length SIGNATURE_VERSION + 1) in
            (case signPayload wc ts payload secret of
               Inl e \<Rightarrow> Inl e
             | Inr computed \<Rightarrow>
                 let computedSignature = sliceFrom computed (length SIGNATURE_VERSION + 1)
                 in Inr (timingSafeEqual computedSignature expectedSignature)))"

section \<open>Types (types.ts)\<close>

text \<open>
  A parsed JSON value (\<open>unknown\<close> in the source). The keys of an object are distinct,
  as \<open>JSON.parse\<close> produces them. A number is kept as the rational it denotes; the
  wrapper passes it on and never computes with it.
\<close>

datatype json =
    JNull
  | JBool bool
  | JNumber rat
  | JString jsstring
  | JArray "json list"
  | JObject "(jsstring \<times> json) list"

datatype outcome_status = Success | Failure

record error_info =
  err_name :: jsstring
  err_message :: jsstring
  err_stack :: "jsstring option"

record outcome_payload =
  out_status :: outcome_status
  out_durationMs :: int
  out_error :: "error_info option"

text \<open>
  \<open>HookRelayEvent\<close>. At run time \<open>providerEventId\<close> is whatever value the payload
  holds under \<open>id\<close>, and \<open>attempt\<close> is a number that may be \<open>NaN\<close>. The field
  \<open>acknowledge\<close> is a function that does nothing and is left out.
\<close>

record hookrelay_event =
  ev_id :: jsstring
  ev_provider :: jsstring
  ev_providerEventId :: json
  ev_payload :: json
  ev_receivedAt :: jsstring
  ev_attempt :: "int option"
  ev_replayed :: bool

record hookrelay_options =
  opt_provider :: jsstring
  opt_timeoutMs :: "int option"
  opt_enforceIdempotency :: "bool option"
  opt_allowReplay :: "bool option"

text \<open>
  What the user callback does when invoked and awaited: it returns (or its promise
  resolves), or it throws (or its promise rejects) with an \<open>Error\<close> instance of the
  given name, message and stack, or with some other value. Of such a value the wrapper
  only evaluates \<open>String(value)\<close>, so the value is given by what that conversion does:
  it yields a string (\<open>Inr\<close>), or it throws (\<open>Inl\<close>), as it does with a \<open>TypeError\<close> for
  \<open>Object.create(null)\<close> and with anything at all for an object whose \<open>toString\<close>
  throws. A callback that never settles is outside the model, as the wrapper then never
  responds.
\<close>

datatype thrown = ErrorInstance jsstring jsstring "jsstring option" | NonError "exn + jsstring"

datatype handler_result = Returned | Threw thrown

type_synonym hookrelay_handler = "hookrelay_event \<Rightarrow> handler_result"

section \<open>Header names (constants/headers.ts)\<close>

definition HEADERS_EVENT_ID :: jsstring where
  "HEADERS_EVENT_ID = ascii ''X-HookRelay-Event-Id''"

definition HEADERS_PROVIDER :: jsstring where
  "HEADERS_PROVIDER = ascii ''X-HookRelay-Provider''"

definition HEADERS_ATTEMPT :: jsstring where
  "HEADERS_ATTEMPT = ascii ''X-HookRelay-Attempt''"

definition HEADERS_REPLAYED :: jsstring where
  "HEADERS_REPLAYED = ascii ''X-HookRelay-Replayed''"

definition HEADERS_TIMESTAMP :: jsstring where
  "HEADERS_TIMESTAMP = ascii ''X-HookRelay-Timestamp''"

definition HEADERS_SIGNATURE :: jsstring where
  "HEADERS_SIGNATURE = ascii ''X-HookRelay-Signature''"

section \<open>The platform: requests, responses, environment, clock, network\<close>

text \<open>
  A request is its \<open>headers.get\<close> function (\<open>None\<close> is \<open>null\<close>) and the text of its
  body, as \<open>await request.text()\<close> returns it. A response is what \<open>Response.json(body, {status})\<close> was given; the three
  shapes of body the handler builds are \<open>{error}\<close>, \<open>{accepted, eventId}\<close> and
  \<open>{error, eventId}\<close>.
\<close>

record request =
  req_headers_get :: "jsstring \<Rightarrow> jsstring option"
  req_text :: jsstring

datatype response_body =
    ErrorBody jsstring
  | AcceptedBody bool jsstring
  | ErrorEventBody jsstring jsstring

record response =
  resp_status :: int
  resp_body :: response_body

text \<open>
  A call of \<open>fetch\<close>: the URL, the method, the headers, and the outcome that
  \<open>JSON.stringify\<close> serialises into the body. Its promise rejects, or resolves to a
  response with \<open>ok\<close>, \<open>status\<close> and \<open>statusText\<close>.
\<close>

record fetch_call =
  fc_url :: jsstring
  fc_method :: jsstring
  fc_headers :: "(jsstring \<times> jsstring) list"
  fc_body :: outcome_payload

datatype fetch_result = FetchRejected jsstring | FetchResponse bool int jsstring

text \<open>
  The world the handler runs in: \<open>process.env\<close>, the clock (\<open>clock w k\<close> is what the
  \<open>k\<close>-th reading of the time returns, in milliseconds), Web Crypto, \<open>JSON.parse\<close>
  (\<open>None\<close> when it throws), \<open>Date.prototype.toISOString\<close> and the network.
  The state records the effects of a run: how often the clock was read, the calls of
  \<open>fetch\<close>, the lines written by \<open>console.error\<close>, and the events the user
  callback was invoked with.
\<close>

record world =
  processEnv :: "jsstring \<Rightarrow> jsstring option"
  clock :: "nat \<Rightarrow> int"
  webCrypto :: webcrypto
  jsonParse :: "jsstring \<Rightarrow> json option"
  toISOString :: "int \<Rightarrow> jsstring"
  fetchImpl :: "fetch_call \<Rightarrow> fetch_result"

record sys =
  clockReads :: nat
  fetchCalls :: "fetch_call list"
  consoleErrors :: "jsstring list"
  handlerCalls :: "hookrelay_event list"

definition dateNow :: "world \<Rightarrow> sys \<Rightarrow> int \<times> sys" where
  "dateNow w s = (clock w (clockReads s), s\<lparr>clockReads := clockReads s + 1\<rparr>)"

definition consoleError :: "jsstring \<Rightarrow> sys \<Rightarrow> sys" where
  "consoleError line s = s\<lparr>consoleErrors := consoleErrors s @ [line]\<rparr>"

text \<open>\<open>!x\<close> for \<open>x\<close> a string or \<open>null\<close>/\<open>undefined\<close>.\<close>

definition falsy :: "jsstring option \<Rightarrow> bool" where
  "falsy x = (case x of None \<Rightarrow> True | Some v \<Rightarrow> v = [])"

section \<open>Outcome reporting (services/outcome.ts)\<close>

definition DEFAULT_API_URL :: jsstring where
  "DEFAULT_API_URL = ascii ''https://api.hookrelay.io''"

definition reportOutcome ::
  "world \<Rightarrow> jsstring \<Rightarrow> outcome_payload \<Rightarrow> jsstring \<Rightarrow> jsstring option \<Rightarrow> sys \<Rightarrow> bool \<times> sys" where
  "reportOutcome w eventId outcome secret apiUrl s =
     (let baseUrl =
            (case apiUrl of
               Some u \<Rightarrow> u
             | None \<Rightarrow>
                 (case processEnv w (ascii ''HOOKRELAY_API_URL'') of
                    Some v \<Rightarrow> v
                  | None \<Rightarrow> DEFAULT_API_URL));
          url = baseUrl @ ascii ''/v1/events/'' @ eventId @ ascii ''/outcome'';
          call = \<lparr>fc_url = url,
                  fc_method = ascii ''POST'',
                  fc_headers = [(ascii ''Content-Type'', ascii ''application/json''),
                                (ascii ''Authorization'', ascii ''Bearer '' @ secret)],
                  fc_body = outcome\<rparr>;
          s1 = s\<lparr>fetchCalls := fetchCalls s @ [call]\<rparr>
      in case fetchImpl w call of
           FetchResponse ok status statusText \<Rightarrow>
             if \<not> ok
             then (False,
                   consoleError (ascii ''[HookRelay] Failed to report outcome: '' @
                     numberToString status @ ascii '' '' @ statusText) s1)
             else (True, s1)
         | FetchRejected error \<Rightarrow>
             (False, consoleError (ascii ''[HookRelay] Failed to report outcome: '' @ error) s1))"

section \<open>The wrapper (withHookRelay.ts)\<close>

text \<open>\<open>!payload\<close>, \<open>typeof payload\<close> and \<open>payload.id\<close> on a parsed JSON value.\<close>

fun jsonFalsy :: "json \<Rightarrow> bool" where
  "jsonFalsy JNull = True"
| "jsonFalsy (JBool b) = (\<not> b)"
| "jsonFalsy (JNumber q) = (q = 0)"
| "jsonFalsy (JString v) = (v = [])"
| "jsonFalsy (JArray vs) = False"
| "jsonFalsy (JObject fs) = False"

fun typeof :: "json \<Rightarrow> jsstring" where
  "typeof JNull = ascii ''object''"
| "typeof (JBool b) = ascii ''boolean''"
| "typeof (JNumber q) = ascii ''number''"
| "typeof (JString v) = ascii ''string''"
| "typeof (JArray vs) = ascii ''object''"
| "typeof (JObject fs) = ascii ''object''"

fun getProperty :: "json \<Rightarrow> jsstring \<Rightarrow> json option" where
  "getProperty (JObject fs) key = map_of fs key"
| "getProperty v key = None"

definition extractProviderEventId :: "jsstring \<Rightarrow> json \<Rightarrow> json option" where
  "extractProviderEventId provider payload =
     (if jsonFalsy payload \<or> typeof payload \<noteq> ascii ''object'' then None
      else if provider = ascii ''stripe'' then getProperty payload (ascii ''id'')
      else None)"

text \<open>\<open>providerEventId ?? eventId\<close>: the fallback replaces \<open>undefined\<close> and \<open>null\<close>.\<close>

definition nullishOr :: "json option \<Rightarrow> json \<Rightarrow> json" where
  "nullishOr v d = (case v of None \<Rightarrow> d | Some JNull \<Rightarrow> d | Some x \<Rightarrow> x)"

text \<open>
  The \<open>errorInfo\<close> of the \<open>catch\<close> block: name, message and stack of an \<open>Error\<close>
  instance, or \<open>{name: 'Error', message: String(error)}\<close> for any other thrown value.
  The conversion \<open>String(error)\<close> is evaluated inside the \<open>catch\<close> block with no guard
  around it, so what it throws leaves the handler.
\<close>

definition errorInfoOf :: "thrown \<Rightarrow> exn + error_info" where
  "errorInfoOf error =
     (case error of
        ErrorInstance name message stack \<Rightarrow>
          Inr \<lparr>err_name = name, err_message = message, err_stack = stack\<rparr>
      | NonError conversion \<Rightarrow>
          (case conversion of
             Inl e \<Rightarrow> Inl e
           | Inr str \<Rightarrow> Inr \<lparr>err_name = ascii ''Error'', err_message = str, err_stack = None\<rparr>))"

text \<open>
  The \<open>try\<close>/\<open>catch\<close> at the end of the wrapped handler: read the start time, invoke
  and await the user callback, read the time again, report the outcome, respond.
\<close>

definition executeHandler ::
  "hookrelay_handler \<Rightarrow> world \<Rightarrow> hookrelay_event \<Rightarrow> jsstring \<Rightarrow> jsstring \<Rightarrow> sys \<Rightarrow>
     (exn + response) \<times> sys" where
  "executeHandler handler w event eventId secret s0 =
     (let (startTime, s1) = dateNow w s0;
          s2 = s1\<lparr>handlerCalls := handlerCalls s1 @ [event]\<rparr>
      in case handler event of
           Returned \<Rightarrow>
             (let (endTime, s3) = dateNow w s2;
                  durationMs = endTime - startTime;
                  (reported, s4) =
                    reportOutcome w eventId
                      \<lparr>out_status = Success, out_durationMs = durationMs, out_error = None\<rparr>
                      secret None s3;
                  s5 = (if \<not> reported
                        then consoleError
                               (ascii ''[HookRelay] Failed to report success outcome for event '' @ eventId) s4
                        else s4)
              in (Inr \<lparr>resp_status = 202, resp_body = AcceptedBody True eventId\<rparr>, s5))
         | Threw error \<Rightarrow>
             (let (endTime, s3) = dateNow w s2;
                  durationMs = endTime - startTime
              in case errorInfoOf error of
                   Inl e \<Rightarrow> (Inl e, s3)
                 | Inr errorInfo \<Rightarrow>
                     (let (reported, s4) =
                            reportOutcome w eventId
                              \<lparr>out_status = Failure, out_durationMs = durationMs,
                                 out_error = Some errorInfo\<rparr>
                              secret None s3;
                          s5 = (if \<not> reported
                                then consoleError
                                       (ascii ''[HookRelay] Failed to report failure outcome for event '' @
                                        eventId) s4
                                else s4)
                      in (Inr \<lparr>resp_status = 500,
                                resp_body = ErrorEventBody (err_message errorInfo) eventId\<rparr>,
                          s5))))"

text \<open>
  \<open>hookRelayHandler\<close>, the function \<open>withHookRelay(handler, options)\<close> returns. The
  result is the response, or the exception the returned promise rejects with.
\<close>

definition hookRelayHandler ::
  "hookrelay_handler \<Rightarrow> hookrelay_options \<Rightarrow> world \<Rightarrow> request \<Rightarrow> sys \<Rightarrow> (exn + response) \<times> sys" where
  "hookRelayHandler handler options w request s =
     (let secret = processEnv w (ascii ''HOOKRELAY_SECRET'') in
      if falsy secret
      then (Inl (HookRelayConfigError
                   (ascii ''HOOKRELAY_SECRET environment variable is not configured'')), s)
      else
        let eventId = req_headers_get request HEADERS_EVENT_ID;
            provider = req_headers_get request HEADERS_PROVIDER;
            timestamp = req_headers_get request HEADERS_TIMESTAMP;
            signature = req_headers_get request HEADERS_SIGNATURE;
            attemptStr = req_headers_get request HEADERS_ATTEMPT;
            replayedStr = req_headers_get request HEADERS_REPLAYED
        in
        if falsy eventId \<or> falsy signature \<or> falsy timestamp
        then (Inr \<lparr>resp_status = 400,
                    resp_body = ErrorBody (ascii ''Missing required Hook Relay headers'')\<rparr>, s)
        else if provider \<noteq> Some (opt_provider options)
        then (Inr \<lparr>resp_status = 400,
                    resp_body = ErrorBody
                      (ascii ''Expected provider '' @ [0x27] @ opt_provider options @ [0x27] @
                       ascii '', got '' @ [0x27] @
                       (case provider of Some p \<Rightarrow> p | None \<Rightarrow> ascii ''unknown'') @ [0x27])\<rparr>, s)
        else
          let rawBody = req_text request;
              (now, s1) = dateNow w s
          in
          (case verifySignature (webCrypto w) now (the timestamp) rawBody (the signature) (the secret) of
             Inl e \<Rightarrow> (Inl e, s1)
           | Inr isValid \<Rightarrow>
               if \<not> isValid
               then (Inr \<lparr>resp_status = 401, resp_body = ErrorBody (ascii ''Invalid signature'')\<rparr>, s1)
               else
                 (case jsonParse w rawBody of
                    None \<Rightarrow>
                      (Inr \<lparr>resp_status = 400,
                             resp_body = ErrorBody (ascii ''Invalid JSON payload'')\<rparr>, s1)
                  | Some payload \<Rightarrow>
                      let attempt = (if falsy attemptStr then Some 1 else parseInt10 (the attemptStr));
                          replayed = (replayedStr = Some (ascii ''true''))
                      in
                      if replayed \<and> opt_allowReplay options = Some False
                      then (Inr \<lparr>resp_status = 400,
                                  resp_body = ErrorBody (ascii ''Replayed events are not allowed'')\<rparr>, s1)
                      else
                        let providerEventId = extractProviderEventId (opt_provider options) payload;
                            (received, s2) = dateNow w s1;
                            event = \<lparr>ev_id = the eventId,
                                     ev_provider = opt_provider options,
                                     ev_providerEventId = nullishOr providerEventId (JString (the eventId)),
                                     ev_payload = payload,
                                     ev_receivedAt = toISOString w received,
                                     ev_attempt = attempt,
                                     ev_replayed = replayed\<rparr>
                        in executeHandler handler w event (the eventId) (the secret) s2)))"

section \<open>A small platform for running the model\<close>

text \<open>
  Stand-ins for the platform, used to run the definitions on concrete inputs. The
  encoder maps each code unit to its low byte; the keyed digest is two bytes long (the
  length of the message and the sum of key and message bytes) and, like Web Crypto,
  rejects the empty key.
\<close>

definition testCrypto :: webcrypto where
  "testCrypto =
     \<lparr>textEncode = map ucast,
      hmacSha256 = (\<lambda>key msg.
        if key = [] then Inl (WebCryptoRejection (ascii ''Zero-length key is not supported''))
        else Inr [of_nat (length msg), sum_list (key @ msg)])\<rparr>"

definition testWorld :: world where
  "testWorld =
     \<lparr>processEnv = (\<lambda>name. if name = ascii ''HOOKRELAY_SECRET'' then Some (ascii ''k'') else None),
      clock = (\<lambda>k. 1000000 + 7 * int k),
      webCrypto = testCrypto,
      jsonParse = (\<lambda>text. if text = ascii ''{}'' then Some (JObject []) else None),
      toISOString = (\<lambda>t. ascii ''1970-01-01T00:16:40.007Z''),
      fetchImpl = (\<lambda>call. FetchRejected (ascii ''TypeError: fetch failed''))\<rparr>"

definition testHeaders :: "jsstring \<Rightarrow> jsstring option" where
  "testHeaders =
     map_of [(HEADERS_EVENT_ID, ascii ''evt_1''),
             (HEADERS_PROVIDER, ascii ''stripe''),
             (HEADERS_TIMESTAMP, ascii ''1000''),
             (HEADERS_SIGNATURE, ascii ''v1=0752'')]"

definition testOptions :: hookrelay_options where
  "testOptions =
     \<lparr>opt_provider = ascii ''stripe'', opt_timeoutMs = None, opt_enforceIdempotency = None,
      opt_allowReplay = None\<rparr>"

definition sys0 :: sys where
  "sys0 = \<lparr>clockReads = 0, fetchCalls = [], consoleErrors = [], handlerCalls = []\<rparr>"

definition testRequest :: request where
  "testRequest = \<lparr>req_headers_get = testHeaders, req_text = ascii ''{}''\<rparr>"

text \<open>The event the wrapper builds for \<open>testRequest\<close> in \<open>testWorld\<close>.\<close>

definition testEvent :: hookrelay_event where
  "testEvent =
     \<lparr>ev_id = ascii ''evt_1'',
      ev_provider = ascii ''stripe'',
      ev_providerEventId = JString (ascii ''evt_1''),
      ev_payload = JObject [],
      ev_receivedAt = ascii ''1970-01-01T00:16:40.007Z'',
      ev_attempt = Some 1,
      ev_replayed = False\<rparr>"

section \<open>The constant-time comparison\<close>

lemma xor_eq_0_word: "(x XOR y = 0) = (x = (y::'a::len word))"
proof
  assume "x XOR y = 0"
  then have "(x XOR y) XOR y = 0 XOR y" by simp
  then show "x = y" by (simp add: xor.assoc)
qed simp

lemma ucast_16_32_inj: "(ucast (x::16 word) :: 32 word) = ucast y \<Longrightarrow> x = y"
proof -
  assume h: "(ucast x :: 32 word) = ucast y"
  have "(ucast (ucast x :: 32 word) :: 16 word) = x" "(ucast (ucast y :: 32 word) :: 16 word) = y"
    by (simp_all add: ucast_up_ucast is_up)
  with h show "x = y" by metis
qed

lemma timingSafeEqual_loop_zero:
  "(timingSafeEqual_loop a b i r = 0) =
     (r = 0 \<and> (\<forall>j. i \<le> j \<and> j < length a \<longrightarrow> charCodeAt a j = charCodeAt b j))"
proof (induction a b i r rule: timingSafeEqual_loop.induct)
  case (1 a b i result)
  show ?case
  proof (cases "i < length a")
    case True
    have split: "(\<forall>j. i \<le> j \<and> j < length a \<longrightarrow> charCodeAt a j = charCodeAt b j) =
          (charCodeAt a i = charCodeAt b i \<and>
           (\<forall>j. i + 1 \<le> j \<and> j < length a \<longrightarrow> charCodeAt a j = charCodeAt b j))"
    proof -
      have "\<And>j. (i \<le> j) = (j = i \<or> i + 1 \<le> j)" by auto
      then show ?thesis using True by auto
    qed
    have "(timingSafeEqual_loop a b i result = 0) =
          (timingSafeEqual_loop a b (i + 1) (result OR (charCodeAt a i XOR charCodeAt b i)) = 0)"
      using True by (subst timingSafeEqual_loop.simps) simp
    also have "\<dots> = (result OR (charCodeAt a i XOR charCodeAt b i) = 0 \<and>
          (\<forall>j. i + 1 \<le> j \<and> j < length a \<longrightarrow> charCodeAt a j = charCodeAt b j))"
      using "1.IH" [OF True] .
    also have "\<dots> = (result = 0 \<and> (\<forall>j. i \<le> j \<and> j < length a \<longrightarrow> charCodeAt a j = charCodeAt b j))"
      by (simp only: or_eq_0_iff xor_eq_0_word split) blast
    finally show ?thesis .
  next
    case False
    then show ?thesis by (subst timingSafeEqual_loop.simps) auto
  qed
qed

lemma timingSafeEqual_eq: "timingSafeEqual a b = (a = b)"
proof (cases "length a = length b")
  case False
  then show ?thesis by (auto simp: timingSafeEqual_def)
next
  case True
  have "(\<forall>j. j < length a \<longrightarrow> charCodeAt a j = charCodeAt b j) = (\<forall>j < length a. a ! j = b ! j)"
    using True by (auto simp: charCodeAt_def dest: ucast_16_32_inj)
  then show ?thesis
    using True by (simp add: timingSafeEqual_def timingSafeEqual_loop_zero list_eq_iff_nth_eq)
qed

text \<open>
  C7. \<open>timingSafeEqual a b\<close> is true exactly when the two strings are equal: strings of
  different lengths are rejected by the length check, and for strings of equal length
  the OR-accumulated XOR over all positions is zero exactly when every position agrees.
\<close>

theorem timingSafeEqual_iff_string_equality:
  "timingSafeEqual a b = (a = b) \<and>
   (length a \<noteq> length b \<longrightarrow> timingSafeEqual a b = False) \<and>
   (length a = length b \<longrightarrow>
      timingSafeEqual a b = (\<forall>i < length a. charCodeAt a i XOR charCodeAt b i = 0))"
proof (intro conjI impI)
  show "timingSafeEqual a b = (a = b)" by (rule timingSafeEqual_eq)
next
  assume "length a \<noteq> length b"
  then show "timingSafeEqual a b = False" by (simp add: timingSafeEqual_def)
next
  assume "length a = length b"
  then show "timingSafeEqual a b = (\<forall>i < length a. charCodeAt a i XOR charCodeAt b i = 0)"
    by (simp add: timingSafeEqual_def timingSafeEqual_loop_zero xor_eq_0_word)
qed

theorem timingSafeEqual_iff_string_equality_witness:
  "timingSafeEqual (ascii ''ab12'') (ascii ''ab12'') \<and>
   \<not> timingSafeEqual (ascii ''ab12'') (ascii ''ab13'') \<and>
   \<not> timingSafeEqual (ascii ''ab12'') (ascii ''ab1'')"
  using timingSafeEqual_iff_string_equality [of "ascii ''ab12''" "ascii ''ab12''"]
    timingSafeEqual_iff_string_equality [of "ascii ''ab12''" "ascii ''ab13''"]
    timingSafeEqual_iff_string_equality [of "ascii ''ab12''" "ascii ''ab1''"]
  by (simp add: ascii_def)

section \<open>Decimal rendering and \<open>parseInt\<close>\<close>

lemma unat_digitChar: "d < 10 \<Longrightarrow> unat (digitChar d) = 48 + d"
  by (simp only: digitChar_def unat_of_nat) simp

lemma isDecimalDigit_digitChar: "d < 10 \<Longrightarrow> isDecimalDigit (digitChar d)"
  using unat_digitChar [of d] by (simp add: isDecimalDigit_def word_le_nat_alt)

lemma digitValue_digitChar: "d < 10 \<Longrightarrow> digitValue (digitChar d) = int d"
  using unat_digitChar [of d] by (simp add: digitValue_def uint_nat)

lemma not_ws_digitChar: "d < 10 \<Longrightarrow> \<not> isStrWhiteSpaceChar (digitChar d)"
  using unat_digitChar [of d] by (auto simp add: isStrWhiteSpaceChar_def word_le_nat_alt)

lemma not_sign_digitChar: "d < 10 \<Longrightarrow> digitChar d \<noteq> 0x2B \<and> digitChar d \<noteq> 0x2D"
  using unat_digitChar [of d] by auto


lemma natToDigits_digits: "c \<in> set (natToDigits n) \<Longrightarrow> \<exists>d < 10. c = digitChar d"
proof (induction n rule: natToDigits.induct)
  case (1 n)
  show ?case
  proof (cases "n < 10")
    case True
    with "1.prems" show ?thesis by (subst (asm) natToDigits.simps) auto
  next
    case False
    from "1.prems" have "c \<in> set (natToDigits (n div 10)) \<or> c = digitChar (n mod 10)"
      using False by (subst (asm) natToDigits.simps) auto
    then show ?thesis
    proof
      assume "c \<in> set (natToDigits (n div 10))"
      with "1.IH" False show ?thesis by simp
    next
      assume "c = digitChar (n mod 10)"
      moreover have "n mod 10 < 10" by simp
      ultimately show ?thesis by blast
    qed
  qed
qed

lemma natToDigits_nonempty: "natToDigits n \<noteq> []"
  by (subst natToDigits.simps) simp

lemma digitsToInt_snoc: "digitsToInt (Z @ [c]) = 10 * digitsToInt Z + digitValue c"
  by (simp add: digitsToInt_def)

lemma digitsToInt_natToDigits: "digitsToInt (natToDigits n) = int n"
proof (induction n rule: natToDigits.induct)
  case (1 n)
  show ?case
  proof (cases "n < 10")
    case True
    then show ?thesis
      by (subst natToDigits.simps) (simp add: digitsToInt_def digitValue_digitChar)
  next
    case False
    have "digitsToInt (natToDigits n) =
          10 * digitsToInt (natToDigits (n div 10)) + digitValue (digitChar (n mod 10))"
      using False by (subst natToDigits.simps) (simp add: digitsToInt_snoc)
    also have "\<dots> = 10 * int (n div 10) + int (n mod 10)"
      using "1.IH" [OF False] by (simp add: digitValue_digitChar)
    also have "\<dots> = int n" by presburger
    finally show ?thesis .
  qed
qed

lemma takeWhile_natToDigits: "takeWhile isDecimalDigit (natToDigits n) = natToDigits n"
  by (rule takeWhile_eq_all_conv [THEN iffD2]) (auto dest!: natToDigits_digits simp: isDecimalDigit_digitChar)

lemma hd_natToDigits: "\<exists>d < 10. hd (natToDigits n) = digitChar d"
  using natToDigits_digits [of "hd (natToDigits n)" n] natToDigits_nonempty [of n] by simp

lemma parseInt10_natToDigits: "parseInt10 (natToDigits n) = Some (int n)"
proof -
  obtain d where d: "d < 10" "hd (natToDigits n) = digitChar d"
    using hd_natToDigits by blast
  have ne: "natToDigits n \<noteq> []" by (rule natToDigits_nonempty)
  have "dropWhile isStrWhiteSpaceChar (natToDigits n) = natToDigits n"
    using ne d not_ws_digitChar [of d] by (cases "natToDigits n") auto
  then show ?thesis
    using ne d not_sign_digitChar [of d]
    by (simp add: parseInt10_def Let_def takeWhile_natToDigits digitsToInt_natToDigits)
qed

lemma parseInt10_numberToString: "parseInt10 (numberToString n) = Some n"
proof (cases "n < 0")
  case False
  then show ?thesis by (simp add: numberToString_def parseInt10_natToDigits)
next
  case True
  have ws: "\<not> isStrWhiteSpaceChar 0x2D" by (simp add: isStrWhiteSpaceChar_def)
  show ?thesis
    using True ws natToDigits_nonempty [of "nat (- n)"]
    by (simp add: numberToString_def parseInt10_def Let_def takeWhile_natToDigits digitsToInt_natToDigits)
qed



section \<open>Hex encoding of the digest\<close>

lemma unat_hexDigitChar: "d < 16 \<Longrightarrow> unat (hexDigitChar d) = (if d < 10 then 48 + d else 87 + d)"
  by (simp only: hexDigitChar_def unat_of_nat split: if_splits) simp

lemma hexDigitChar_inj: "d < 16 \<Longrightarrow> e < 16 \<Longrightarrow> hexDigitChar d = hexDigitChar e \<Longrightarrow> d = e"
proof -
  assume d: "d < 16" and e: "e < 16" and h: "hexDigitChar d = hexDigitChar e"
  from h have "unat (hexDigitChar d) = unat (hexDigitChar e)" by simp
  with d e show "d = e" by (simp add: unat_hexDigitChar split: if_splits)
qed

lemma toString16_small: "n < 16 \<Longrightarrow> toString16 n = [hexDigitChar n]"
  by (subst toString16.simps) simp

lemma toString16_byte: "16 \<le> n \<Longrightarrow> n < 256 \<Longrightarrow> toString16 n = [hexDigitChar (n div 16), hexDigitChar (n mod 16)]"
  by (subst toString16.simps) (simp add: toString16_small)

lemma byteToHex_digits: "byteToHex b = [hexDigitChar (unat b div 16), hexDigitChar (unat b mod 16)]"
proof -
  have lt: "unat b < 256" using unsigned_less [of b] by simp
  show ?thesis
  proof (cases "unat b < 16")
    case True
    then show ?thesis
      by (simp add: byteToHex_def toString16_small padStart_def hexDigitChar_def)
  next
    case False
    with lt show ?thesis
      by (simp add: byteToHex_def toString16_byte padStart_def)
  qed
qed

lemma byteToHex_inj: "byteToHex a = byteToHex b \<Longrightarrow> a = b"
proof -
  assume h: "byteToHex a = byteToHex b"
  have la: "unat a < 256" using unsigned_less [of a] by simp
  have lb: "unat b < 256" using unsigned_less [of b] by simp
  from h have "hexDigitChar (unat a div 16) = hexDigitChar (unat b div 16)"
    and "hexDigitChar (unat a mod 16) = hexDigitChar (unat b mod 16)"
    by (simp_all add: byteToHex_digits)
  moreover have "unat a div 16 < 16" "unat b div 16 < 16" using la lb by simp_all
  moreover have "unat a mod 16 < 16" "unat b mod 16 < 16" by simp_all
  ultimately have "unat a div 16 = unat b div 16" "unat a mod 16 = unat b mod 16"
    by (blast dest: hexDigitChar_inj)+
  then have "unat a = unat b" by (metis div_mult_mod_eq)
  then show "a = b" by (simp add: word_unat_eq_iff)
qed

lemma hex_inj: "concat (map byteToHex xs) = concat (map byteToHex ys) \<Longrightarrow> xs = ys"
proof (induction xs arbitrary: ys)
  case Nil
  then show ?case by (cases ys) (simp_all add: byteToHex_digits)
next
  case (Cons x xs)
  show ?case
  proof (cases ys)
    case Nil
    with Cons.prems show ?thesis by (simp add: byteToHex_digits)
  next
    case (Cons y ys')
    with Cons.prems have "byteToHex x @ concat (map byteToHex xs) = byteToHex y @ concat (map byteToHex ys')"
      by simp
    moreover have "length (byteToHex x) = length (byteToHex y)" by (simp add: byteToHex_digits)
    ultimately have "byteToHex x = byteToHex y" "concat (map byteToHex xs) = concat (map byteToHex ys')"
      by simp_all
    with Cons.IH Cons show ?thesis by (simp add: byteToHex_inj)
  qed
qed

section \<open>Signature verification\<close>

lemma verifySignature_in_window:
  assumes "parseInt10 timestamp = Some n"
    and "abs (now div 1000 - n) \<le> 300"
    and "hmacHexDigest wc (numberToString n @ ascii ''.'' @ payload) secret = Inr h"
  shows "verifySignature wc now timestamp payload (ascii ''v1='' @ x) secret = Inr (x = h)"
  using assms
  by (auto simp add: verifySignature_def signPayload_def Let_def TIMESTAMP_TOLERANCE_SECONDS_def
      startsWith_def sliceFrom_def SIGNATURE_VERSION_def ascii_def timingSafeEqual_eq)

text \<open>
  C3. \<open>verifySignature\<close> returns \<open>false\<close>, and does not throw, whenever the timestamp
  string does not parse as an integer or the parsed value is more than 300 seconds away
  from the current time: the result is \<open>Inr False\<close> for every payload, secret, signature
  header and Web Crypto behaviour, so also for a header that would otherwise be correct
  and for a secret on which Web Crypto would reject.
\<close>

theorem verifySignature_rejects_bad_timestamp:
  "parseInt10 timestamp = None \<or>
     (\<exists>ts. parseInt10 timestamp = Some ts \<and> abs (now div 1000 - ts) > 300) \<Longrightarrow>
   verifySignature wc now timestamp payload signatureHeader secret = Inr False"
  by (auto simp add: verifySignature_def Let_def TIMESTAMP_TOLERANCE_SECONDS_def)

theorem verifySignature_rejects_bad_timestamp_witness:
  "verifySignature testCrypto 1000000 (ascii ''soon'') (ascii ''{}'') (ascii ''v1=0754'') (ascii ''k'') = Inr False \<and>
   signPayload testCrypto 1301 (ascii ''{}'') (ascii ''k'') = Inr (ascii ''v1=0756'') \<and>
   verifySignature testCrypto 1000000 (ascii ''1301'') (ascii ''{}'') (ascii ''v1=0756'') (ascii ''k'') = Inr False \<and>
   verifySignature testCrypto 1000000 (ascii ''699'') (ascii ''{}'') (ascii ''v1=0756'') [] = Inr False"
proof -
  have p1: "parseInt10 (ascii ''soon'') = None"
    by (simp add: parseInt10_def ascii_def isStrWhiteSpaceChar_def isDecimalDigit_def)
  have p2: "parseInt10 (ascii ''1301'') = Some 1301"
    by (simp add: parseInt10_def ascii_def isStrWhiteSpaceChar_def isDecimalDigit_def
        digitsToInt_def digitValue_def)
  have p3: "parseInt10 (ascii ''699'') = Some 699"
    by (simp add: parseInt10_def ascii_def isStrWhiteSpaceChar_def isDecimalDigit_def
        digitsToInt_def digitValue_def)
  have s: "signPayload testCrypto 1301 (ascii ''{}'') (ascii ''k'') = Inr (ascii ''v1=0756'')"
    by (simp add: signPayload_def hmacHexDigest_def testCrypto_def numberToString_def
        natToDigits.simps digitChar_def byteToHex_def toString16.simps padStart_def
        hexDigitChar_def SIGNATURE_VERSION_def ascii_def)
  show ?thesis
    using verifySignature_rejects_bad_timestamp
        [of "ascii ''soon''" 1000000 testCrypto "ascii ''{}''" "ascii ''v1=0754''" "ascii ''k''"]
      verifySignature_rejects_bad_timestamp
        [of "ascii ''1301''" 1000000 testCrypto "ascii ''{}''" "ascii ''v1=0756''" "ascii ''k''"]
      verifySignature_rejects_bad_timestamp
        [of "ascii ''699''" 1000000 testCrypto "ascii ''{}''" "ascii ''v1=0756''" "[]"]
      p1 p2 p3 s
    by simp
qed

text \<open>
  C1. A signature produced by \<open>signPayload\<close> verifies: for every integer timestamp
  within 300 seconds of the current time, every payload and every secret, if
  \<open>signPayload ts payload secret\<close> yields a signature then \<open>verifySignature\<close> on
  \<open>String(ts)\<close>, the same payload, that signature and the same secret returns \<open>true\<close>.
\<close>

theorem verifySignature_signPayload:
  assumes "abs (now div 1000 - ts) \<le> 300"
    and "signPayload wc ts payload secret = Inr signature"
  shows "verifySignature wc now (numberToString ts) payload signature secret = Inr True"
proof -
  from assms(2) obtain h
    where h: "hmacHexDigest wc (numberToString ts @ ascii ''.'' @ payload) secret = Inr h"
      and sig: "signature = ascii ''v1='' @ h"
    by (auto simp add: signPayload_def Let_def SIGNATURE_VERSION_def ascii_def split: sum.splits)
  show ?thesis
    using verifySignature_in_window [OF parseInt10_numberToString assms(1) h, of h] sig by simp
qed

theorem verifySignature_signPayload_witness:
  "signPayload testCrypto 1300 (ascii ''{}'') (ascii ''k'') = Inr (ascii ''v1=0755'') \<and>
   numberToString 1300 = ascii ''1300'' \<and>
   verifySignature testCrypto 1000999 (ascii ''1300'') (ascii ''{}'') (ascii ''v1=0755'') (ascii ''k'') = Inr True \<and>
   signPayload testCrypto (- 300) [] (ascii ''k'') = Inr (ascii ''v1=0559'') \<and>
   verifySignature testCrypto 0 (numberToString (- 300)) [] (ascii ''v1=0559'') (ascii ''k'') = Inr True"
proof -
  have s: "signPayload testCrypto 1300 (ascii ''{}'') (ascii ''k'') = Inr (ascii ''v1=0755'')"
    by (simp add: signPayload_def hmacHexDigest_def testCrypto_def numberToString_def
        natToDigits.simps digitChar_def byteToHex_def toString16.simps padStart_def
        hexDigitChar_def SIGNATURE_VERSION_def ascii_def)
  have s': "signPayload testCrypto (- 300) [] (ascii ''k'') = Inr (ascii ''v1=0559'')"
    by (simp add: signPayload_def hmacHexDigest_def testCrypto_def numberToString_def
        natToDigits.simps digitChar_def byteToHex_def toString16.simps padStart_def
        hexDigitChar_def SIGNATURE_VERSION_def ascii_def)
  have n: "numberToString 1300 = ascii ''1300''"
    by (simp add: numberToString_def natToDigits.simps digitChar_def ascii_def)
  have w: "abs ((1000999::int) div 1000 - 1300) \<le> 300" by simp
  have w': "abs ((0::int) div 1000 - (- 300)) \<le> 300" by simp
  show ?thesis
    using verifySignature_signPayload [OF w s] verifySignature_signPayload [OF w' s'] s s' n
    by simp
qed

text \<open>
  C10. \<open>verifySignature\<close> recomputes the HMAC over \<open>String(parseInt(timestamp, 10))\<close>,
  a dot and the payload, not over the header string as received. For a timestamp header
  whose parsed value \<open>n\<close> lies in the tolerance window, let \<open>dc\<close> be the digest of
  \<open>"<n>.<payload>"\<close> and \<open>dl\<close> the digest of \<open>"<header>.<payload>"\<close>. Then the header
  \<open>"v1=" + x\<close> is accepted exactly when \<open>x\<close> is the hex encoding of \<open>dc\<close>; in
  particular the signature over the canonical rendering is accepted whatever the header
  string looks like, and the signature over the literal header string is accepted only
  if the two digests coincide, that is, it is rejected whenever HMAC tells the two
  messages apart.
\<close>

theorem verifySignature_canonical_timestamp:
  assumes "parseInt10 timestamp = Some n"
    and "abs (now div 1000 - n) \<le> 300"
    and "hmacSha256 wc (textEncode wc secret)
           (textEncode wc (numberToString n @ ascii ''.'' @ payload)) = Inr dc"
    and "hmacSha256 wc (textEncode wc secret)
           (textEncode wc (timestamp @ ascii ''.'' @ payload)) = Inr dl"
  shows "verifySignature wc now timestamp payload (ascii ''v1='' @ x) secret =
           Inr (x = concat (map byteToHex dc)) \<and>
         verifySignature wc now timestamp payload
           (ascii ''v1='' @ concat (map byteToHex dc)) secret = Inr True \<and>
         verifySignature wc now timestamp payload
           (ascii ''v1='' @ concat (map byteToHex dl)) secret = Inr (dl = dc)"
proof -
  have h: "hmacHexDigest wc (numberToString n @ ascii ''.'' @ payload) secret =
           Inr (concat (map byteToHex dc))"
    using assms(3) by (simp add: hmacHexDigest_def)
  have "(concat (map byteToHex dl) = concat (map byteToHex dc)) = (dl = dc)"
    by (auto dest: hex_inj)
  then show ?thesis
    using verifySignature_in_window [OF assms(1) assms(2) h] by simp
qed

theorem verifySignature_canonical_timestamp_witness:
  "parseInt10 (ascii ''0300'') = Some 300 \<and>
   verifySignature testCrypto 300000 (ascii ''0300'') (ascii ''{}'') (ascii ''v1=0624'') (ascii ''k'') = Inr True \<and>
   verifySignature testCrypto 300000 (ascii ''0300'') (ascii ''{}'') (ascii ''v1=0754'') (ascii ''k'') = Inr False \<and>
   parseInt10 (ascii ''300.9'') = Some 300 \<and>
   verifySignature testCrypto 300000 (ascii ''300.9'') (ascii ''{}'') (ascii ''v1=0624'') (ascii ''k'') = Inr True \<and>
   verifySignature testCrypto 300000 (ascii ''300.9'') (ascii ''{}'') (ascii ''v1=088b'') (ascii ''k'') = Inr False"
proof -
  have p1: "parseInt10 (ascii ''0300'') = Some 300"
    by (simp add: parseInt10_def ascii_def isStrWhiteSpaceChar_def isDecimalDigit_def
        digitsToInt_def digitValue_def)
  have p2: "parseInt10 (ascii ''300.9'') = Some 300"
    by (simp add: parseInt10_def ascii_def isStrWhiteSpaceChar_def isDecimalDigit_def
        digitsToInt_def digitValue_def)
  have w: "abs ((300000::int) div 1000 - 300) \<le> 300" by simp
  have dc: "hmacSha256 testCrypto (textEncode testCrypto (ascii ''k''))
              (textEncode testCrypto (numberToString 300 @ ascii ''.'' @ ascii ''{}'')) = Inr [0x06, 0x24]"
    by (simp add: testCrypto_def numberToString_def natToDigits.simps digitChar_def ascii_def)
  have dl1: "hmacSha256 testCrypto (textEncode testCrypto (ascii ''k''))
              (textEncode testCrypto (ascii ''0300'' @ ascii ''.'' @ ascii ''{}'')) = Inr [0x07, 0x54]"
    by (simp add: testCrypto_def ascii_def)
  have dl2: "hmacSha256 testCrypto (textEncode testCrypto (ascii ''k''))
              (textEncode testCrypto (ascii ''300.9'' @ ascii ''.'' @ ascii ''{}'')) = Inr [0x08, 0x8b]"
    by (simp add: testCrypto_def ascii_def)
  have hx: "concat (map byteToHex [0x06, 0x24]) = ascii ''0624''"
    "concat (map byteToHex [0x07, 0x54]) = ascii ''0754''"
    "concat (map byteToHex [0x08, 0x8b]) = ascii ''088b''"
    by (simp_all add: byteToHex_def toString16.simps padStart_def hexDigitChar_def ascii_def)
  show ?thesis
    using verifySignature_canonical_timestamp [OF p1 w dc dl1, of "[]"]
      verifySignature_canonical_timestamp [OF p2 w dc dl2, of "[]"] p1 p2
    by (simp only: hx) (simp add: ascii_def)
qed

section \<open>Outcome reporting and the callback\<close>

lemma reportOutcome_effects:
  "\<exists>call line.
     fetchCalls (snd (reportOutcome w eventId outcome secret apiUrl s)) = fetchCalls s @ [call] \<and>
     fc_body call = outcome \<and>
     fc_url call =
       (case apiUrl of Some u \<Rightarrow> u
        | None \<Rightarrow> (case processEnv w (ascii ''HOOKRELAY_API_URL'') of Some v \<Rightarrow> v | None \<Rightarrow> DEFAULT_API_URL))
       @ ascii ''/v1/events/'' @ eventId @ ascii ''/outcome'' \<and>
     handlerCalls (snd (reportOutcome w eventId outcome secret apiUrl s)) = handlerCalls s \<and>
     clockReads (snd (reportOutcome w eventId outcome secret apiUrl s)) = clockReads s \<and>
     (fst (reportOutcome w eventId outcome secret apiUrl s) \<longrightarrow>
        consoleErrors (snd (reportOutcome w eventId outcome secret apiUrl s)) = consoleErrors s) \<and>
     (\<not> fst (reportOutcome w eventId outcome secret apiUrl s) \<longrightarrow>
        consoleErrors (snd (reportOutcome w eventId outcome secret apiUrl s)) = consoleErrors s @ [line]) \<and>
     fst (reportOutcome w eventId outcome secret apiUrl s) =
       (\<exists>status statusText. fetchImpl w call = FetchResponse True status statusText)"
  by (auto simp add: reportOutcome_def Let_def consoleError_def split: fetch_result.splits)

lemma executeHandler_Threw:
  assumes "handler event = Threw error" and "errorInfoOf error = Inr info"
  shows "\<exists>call. 
     fst (executeHandler handler w event eventId secret s) =
       Inr \<lparr>resp_status = 500, resp_body = ErrorEventBody (err_message info) eventId\<rparr> \<and>
     fetchCalls (snd (executeHandler handler w event eventId secret s)) = fetchCalls s @ [call] \<and>
     fc_body call = \<lparr>out_status = Failure,
                      out_durationMs = clock w (clockReads s + 1) - clock w (clockReads s),
                      out_error = Some info\<rparr> \<and>
     handlerCalls (snd (executeHandler handler w event eventId secret s)) = handlerCalls s @ [event]"
proof -
  let ?s3 = "s\<lparr>clockReads := clockReads s + 1, handlerCalls := handlerCalls s @ [event], clockReads := clockReads s + 1 + 1\<rparr>"
  let ?o = "\<lparr>out_status = Failure,
                      out_durationMs = clock w (clockReads s + 1) - clock w (clockReads s),
                      out_error = Some info\<rparr>"
  obtain call where c: "fetchCalls (snd (reportOutcome w eventId ?o secret None ?s3)) = fetchCalls ?s3 @ [call]"
     "fc_body call = ?o" "handlerCalls (snd (reportOutcome w eventId ?o secret None ?s3)) = handlerCalls ?s3"
    using reportOutcome_effects [of w eventId ?o secret None ?s3] by blast
  show ?thesis
    using assms c
    by (auto simp add: executeHandler_def Let_def dateNow_def consoleError_def split_def)
qed

lemma executeHandler_Threw_escapes:
  assumes "handler event = Threw error" and "errorInfoOf error = Inl e"
  shows "executeHandler handler w event eventId secret s =
         (Inl e, s\<lparr>clockReads := clockReads s + 2, handlerCalls := handlerCalls s @ [event]\<rparr>)"
  using assms by (simp add: executeHandler_def Let_def dateNow_def split_def)

lemma executeHandler_Returned:
  assumes "handler event = Returned"
  shows "\<exists>call. 
     fst (executeHandler handler w event eventId secret s) =
       Inr \<lparr>resp_status = 202, resp_body = AcceptedBody True eventId\<rparr> \<and>
     fetchCalls (snd (executeHandler handler w event eventId secret s)) = fetchCalls s @ [call] \<and>
     fc_body call = \<lparr>out_status = Success,
                      out_durationMs = clock w (clockReads s + 1) - clock w (clockReads s),
                      out_error = None\<rparr> \<and>
     handlerCalls (snd (executeHandler handler w event eventId secret s)) = handlerCalls s @ [event] \<and>
     ((\<exists>status statusText. fetchImpl w call = FetchResponse True status statusText) \<longrightarrow>
        consoleErrors (snd (executeHandler handler w event eventId secret s)) = consoleErrors s) \<and>
     (\<not> (\<exists>status statusText. fetchImpl w call = FetchResponse True status statusText) \<longrightarrow>
        (\<exists>line. consoleErrors (snd (executeHandler handler w event eventId secret s)) =
           consoleErrors s @ [line, ascii ''[HookRelay] Failed to report success outcome for event '' @ eventId]))"
proof -
  let ?s3 = "s\<lparr>clockReads := clockReads s + 1, handlerCalls := handlerCalls s @ [event], clockReads := clockReads s + 1 + 1\<rparr>"
  let ?o = "\<lparr>out_status = Success,
                      out_durationMs = clock w (clockReads s + 1) - clock w (clockReads s),
                      out_error = None\<rparr>"
  let ?r = "reportOutcome w eventId ?o secret None ?s3"
  obtain call line where c: "fetchCalls (snd ?r) = fetchCalls ?s3 @ [call]"
     "fc_body call = ?o" "handlerCalls (snd ?r) = handlerCalls ?s3"
     "fst ?r \<longrightarrow> consoleErrors (snd ?r) = consoleErrors ?s3"
     "\<not> fst ?r \<longrightarrow> consoleErrors (snd ?r) = consoleErrors ?s3 @ [line]"
     "fst ?r = (\<exists>status statusText. fetchImpl w call = FetchResponse True status statusText)"
    using reportOutcome_effects [of w eventId ?o secret None ?s3] by blast
  have e: "executeHandler handler w event eventId secret s =
        (Inr \<lparr>resp_status = 202, resp_body = AcceptedBody True eventId\<rparr>,
         if \<not> fst ?r
         then consoleError (ascii ''[HookRelay] Failed to report success outcome for event '' @ eventId) (snd ?r)
         else snd ?r)"
    using assms by (simp add: executeHandler_def Let_def dateNow_def split_def)
  show ?thesis
    unfolding e using c by (cases "fst ?r") (auto simp add: consoleError_def)
qed

lemma executeHandler_invokes:
  "handlerCalls (snd (executeHandler handler w event eventId secret s)) = handlerCalls s @ [event]"
proof (cases "handler event")
  case Returned
  then show ?thesis
    using executeHandler_Returned [of handler event w eventId secret s] by auto
next
  case (Threw error)
  show ?thesis
  proof (cases "errorInfoOf error")
    case (Inl e)
    then show ?thesis
      using executeHandler_Threw_escapes [of handler event error e w eventId secret s] Threw by simp
  next
    case (Inr info)
    then show ?thesis
      using executeHandler_Threw [of handler event error info w eventId secret s] Threw by auto
  qed
qed

lemma hookRelayHandler_dispatch:
  assumes "processEnv w (ascii ''HOOKRELAY_SECRET'') = Some secret" and "secret \<noteq> []"
    and "req_headers_get request HEADERS_EVENT_ID = Some eventId" and "eventId \<noteq> []"
    and "req_headers_get request HEADERS_SIGNATURE = Some signature" and "signature \<noteq> []"
    and "req_headers_get request HEADERS_TIMESTAMP = Some timestamp" and "timestamp \<noteq> []"
    and "req_headers_get request HEADERS_PROVIDER = Some (opt_provider options)"
    and "verifySignature (webCrypto w) (clock w (clockReads s)) timestamp (req_text request) signature secret = Inr True"
    and "jsonParse w (req_text request) = Some payload"
    and "\<not> (req_headers_get request HEADERS_REPLAYED = Some (ascii ''true'') \<and> opt_allowReplay options = Some False)"
  shows "hookRelayHandler handler options w request s =
         executeHandler handler w
           \<lparr>ev_id = eventId,
            ev_provider = opt_provider options,
            ev_providerEventId = nullishOr (extractProviderEventId (opt_provider options) payload) (JString eventId),
            ev_payload = payload,
            ev_receivedAt = toISOString w (clock w (clockReads s + 1)),
            ev_attempt = (if falsy (req_headers_get request HEADERS_ATTEMPT) then Some 1
                          else parseInt10 (the (req_headers_get request HEADERS_ATTEMPT))),
            ev_replayed = (req_headers_get request HEADERS_REPLAYED = Some (ascii ''true''))\<rparr>
           eventId secret (s\<lparr>clockReads := clockReads s + 2\<rparr>)"
  using assms
  by (auto simp add: hookRelayHandler_def Let_def falsy_def dateNow_def)

lemma hookRelayHandler_cases:
  "handlerCalls (snd (hookRelayHandler handler options w request s)) = handlerCalls s \<or>
   hookRelayHandler handler options w request s =
     executeHandler handler w
       \<lparr>ev_id = the (req_headers_get request HEADERS_EVENT_ID),
        ev_provider = opt_provider options,
        ev_providerEventId =
          nullishOr (extractProviderEventId (opt_provider options) (the (jsonParse w (req_text request))))
            (JString (the (req_headers_get request HEADERS_EVENT_ID))),
        ev_payload = the (jsonParse w (req_text request)),
        ev_receivedAt = toISOString w (clock w (clockReads s + 1)),
        ev_attempt = (if falsy (req_headers_get request HEADERS_ATTEMPT) then Some 1
                      else parseInt10 (the (req_headers_get request HEADERS_ATTEMPT))),
        ev_replayed = (req_headers_get request HEADERS_REPLAYED = Some (ascii ''true''))\<rparr>
       (the (req_headers_get request HEADERS_EVENT_ID))
       (the (processEnv w (ascii ''HOOKRELAY_SECRET'')))
       (s\<lparr>clockReads := clockReads s + 2\<rparr>) \<and>
   req_headers_get request HEADERS_EVENT_ID \<noteq> None"
  by (auto simp add: hookRelayHandler_def Let_def dateNow_def falsy_def
      split: sum.splits option.splits)

lemma hookRelayHandler_invoked:
  assumes "handlerCalls (snd (hookRelayHandler handler options w request s)) \<noteq> handlerCalls s"
  shows "\<exists>event secret s2.
      hookRelayHandler handler options w request s =
        executeHandler handler w event (ev_id event) secret s2 \<and>
      handlerCalls s2 = handlerCalls s \<and> fetchCalls s2 = fetchCalls s \<and>
      consoleErrors s2 = consoleErrors s \<and> clockReads s2 = clockReads s + 2 \<and>
      req_headers_get request HEADERS_EVENT_ID = Some (ev_id event)"
proof -
  let ?event = "\<lparr>ev_id = the (req_headers_get request HEADERS_EVENT_ID),
        ev_provider = opt_provider options,
        ev_providerEventId =
          nullishOr (extractProviderEventId (opt_provider options) (the (jsonParse w (req_text request))))
            (JString (the (req_headers_get request HEADERS_EVENT_ID))),
        ev_payload = the (jsonParse w (req_text request)),
        ev_receivedAt = toISOString w (clock w (clockReads s + 1)),
        ev_attempt = (if falsy (req_headers_get request HEADERS_ATTEMPT) then Some 1
                      else parseInt10 (the (req_headers_get request HEADERS_ATTEMPT))),
        ev_replayed = (req_headers_get request HEADERS_REPLAYED = Some (ascii ''true''))\<rparr>"
  let ?s2 = "s\<lparr>clockReads := clockReads s + 2\<rparr>"
  have "hookRelayHandler handler options w request s =
        executeHandler handler w ?event (ev_id ?event) (the (processEnv w (ascii ''HOOKRELAY_SECRET''))) ?s2"
    and "req_headers_get request HEADERS_EVENT_ID = Some (ev_id ?event)"
    using assms hookRelayHandler_cases [of handler options w request s] by auto
  moreover have "handlerCalls ?s2 = handlerCalls s" "fetchCalls ?s2 = fetchCalls s"
    "consoleErrors ?s2 = consoleErrors s" "clockReads ?s2 = clockReads s + 2" by simp_all
  ultimately show ?thesis by blast
qed

lemma executeHandler_status:
  "(\<exists>eid. fst (executeHandler handler w event eventId secret s) =
      Inr \<lparr>resp_status = 202, resp_body = AcceptedBody True eid\<rparr>) \<or>
   (\<exists>m eid. fst (executeHandler handler w event eventId secret s) =
      Inr \<lparr>resp_status = 500, resp_body = ErrorEventBody m eid\<rparr>) \<or>
   (\<exists>e. fst (executeHandler handler w event eventId secret s) = Inl e)"
proof (cases "handler event")
  case Returned
  then show ?thesis
    using executeHandler_Returned [of handler event w eventId secret s] by auto
next
  case (Threw error)
  show ?thesis
  proof (cases "errorInfoOf error")
    case (Inl e)
    then show ?thesis
      using executeHandler_Threw_escapes [of handler event error e w eventId secret s] Threw by simp
  next
    case (Inr info)
    then show ?thesis
      using executeHandler_Threw [of handler event error info w eventId secret s] Threw by auto
  qed
qed

lemma replay_response_only_if:
  assumes "fst (hookRelayHandler handler options w request s) =
      Inr \<lparr>resp_status = 400, resp_body = ErrorBody (ascii ''Replayed events are not allowed'')\<rparr>"
  shows "req_headers_get request HEADERS_REPLAYED = Some (ascii ''true'') \<and>
         opt_allowReplay options = Some False"
proof -
  have n: "ascii ''Replayed events are not allowed'' \<noteq> ascii ''Missing required Hook Relay headers''"
    "ascii ''Replayed events are not allowed'' \<noteq> ascii ''Invalid JSON payload''"
    "\<And>x. ascii ''Expected provider '' @ x \<noteq> ascii ''Replayed events are not allowed''"
    by (simp_all add: ascii_def)
  have x: "\<And>event eventId secret s2. fst (executeHandler handler w event eventId secret s2) \<noteq>
      Inr \<lparr>resp_status = 400, resp_body = ErrorBody (ascii ''Replayed events are not allowed'')\<rparr>"
  proof -
    fix event eventId secret s2
    show "fst (executeHandler handler w event eventId secret s2) \<noteq>
      Inr \<lparr>resp_status = 400, resp_body = ErrorBody (ascii ''Replayed events are not allowed'')\<rparr>"
      using executeHandler_status [of handler w event eventId secret s2] by auto
  qed
  show ?thesis
    using assms n x
    by (auto simp add: hookRelayHandler_def Let_def dateNow_def split: if_splits sum.splits option.splits)
qed

lemma replay_gate_at:
  assumes "processEnv w (ascii ''HOOKRELAY_SECRET'') = Some secret" and "secret \<noteq> []"
    and "req_headers_get request HEADERS_EVENT_ID = Some eventId" and "eventId \<noteq> []"
    and "req_headers_get request HEADERS_SIGNATURE = Some signature" and "signature \<noteq> []"
    and "req_headers_get request HEADERS_TIMESTAMP = Some timestamp" and "timestamp \<noteq> []"
    and "req_headers_get request HEADERS_PROVIDER = Some (opt_provider options)"
    and "verifySignature (webCrypto w) (clock w (clockReads s)) timestamp (req_text request)
           signature secret = Inr True"
    and "jsonParse w (req_text request) = Some payload"
  shows "(fst (hookRelayHandler handler options w request s) =
            Inr \<lparr>resp_status = 400, resp_body = ErrorBody (ascii ''Replayed events are not allowed'')\<rparr>) =
         (req_headers_get request HEADERS_REPLAYED = Some (ascii ''true'') \<and>
          opt_allowReplay options = Some False) \<and>
         (req_headers_get request HEADERS_REPLAYED = Some (ascii ''true'') \<and>
          opt_allowReplay options = Some False \<longrightarrow>
            handlerCalls (snd (hookRelayHandler handler options w request s)) = handlerCalls s) \<and>
         (\<not> (req_headers_get request HEADERS_REPLAYED = Some (ascii ''true'') \<and>
             opt_allowReplay options = Some False) \<longrightarrow>
            (\<exists>event. handlerCalls (snd (hookRelayHandler handler options w request s)) =
                       handlerCalls s @ [event] \<and>
                     ev_id event = eventId \<and> ev_payload event = payload \<and>
                     ev_replayed event = (req_headers_get request HEADERS_REPLAYED = Some (ascii ''true''))))"
proof (cases "req_headers_get request HEADERS_REPLAYED = Some (ascii ''true'') \<and>
          opt_allowReplay options = Some False")
  case True
  then have "hookRelayHandler handler options w request s =
     (Inr \<lparr>resp_status = 400, resp_body = ErrorBody (ascii ''Replayed events are not allowed'')\<rparr>,
      s\<lparr>clockReads := clockReads s + 1\<rparr>)"
    using assms by (simp add: hookRelayHandler_def Let_def falsy_def dateNow_def)
  with True show ?thesis by simp
next
  case False
  let ?event = "\<lparr>ev_id = eventId,
            ev_provider = opt_provider options,
            ev_providerEventId = nullishOr (extractProviderEventId (opt_provider options) payload) (JString eventId),
            ev_payload = payload,
            ev_receivedAt = toISOString w (clock w (clockReads s + 1)),
            ev_attempt = (if falsy (req_headers_get request HEADERS_ATTEMPT) then Some 1
                          else parseInt10 (the (req_headers_get request HEADERS_ATTEMPT))),
            ev_replayed = (req_headers_get request HEADERS_REPLAYED = Some (ascii ''true''))\<rparr>"
  let ?s2 = "s\<lparr>clockReads := clockReads s + 2\<rparr>"
  have d: "hookRelayHandler handler options w request s = executeHandler handler w ?event eventId secret ?s2"
    using hookRelayHandler_dispatch [OF assms False] .
  have x: "handlerCalls (snd (executeHandler handler w ?event eventId secret ?s2)) = handlerCalls ?s2 @ [?event]"
    by (rule executeHandler_invokes)
  have "fst (executeHandler handler w ?event eventId secret ?s2) \<noteq>
      Inr \<lparr>resp_status = 400, resp_body = ErrorBody (ascii ''Replayed events are not allowed'')\<rparr>"
    using executeHandler_status [of handler w ?event eventId secret ?s2] by auto
  moreover from x have "handlerCalls (snd (hookRelayHandler handler options w request s)) = handlerCalls s @ [?event]"
    unfolding d by simp
  ultimately show ?thesis using False unfolding d by (intro conjI impI exI [of _ ?event]) simp_all
qed


section \<open>The test platform, evaluated\<close>

lemmas header_defs =
  HEADERS_EVENT_ID_def HEADERS_PROVIDER_def HEADERS_TIMESTAMP_def HEADERS_SIGNATURE_def
  HEADERS_ATTEMPT_def HEADERS_REPLAYED_def

lemma test_secret: "processEnv testWorld (ascii ''HOOKRELAY_SECRET'') = Some (ascii ''k'')"
  by (simp add: testWorld_def)

lemma test_nonempty:
  "ascii ''k'' \<noteq> []" "ascii ''evt_1'' \<noteq> []" "ascii ''1000'' \<noteq> []" "ascii ''v1=0752'' \<noteq> []"
  "ascii ''v1=0000'' \<noteq> []" "ascii ''v1=091b'' \<noteq> []"
  by (simp_all add: ascii_def)

lemma test_headers:
  "testHeaders HEADERS_EVENT_ID = Some (ascii ''evt_1'')"
  "testHeaders HEADERS_PROVIDER = Some (ascii ''stripe'')"
  "testHeaders HEADERS_TIMESTAMP = Some (ascii ''1000'')"
  "testHeaders HEADERS_SIGNATURE = Some (ascii ''v1=0752'')"
  "testHeaders HEADERS_ATTEMPT = None"
  "testHeaders HEADERS_REPLAYED = None"
  by (simp_all add: testHeaders_def header_defs ascii_def)

lemma header_names_distinct:
  "HEADERS_SIGNATURE \<noteq> HEADERS_EVENT_ID" "HEADERS_SIGNATURE \<noteq> HEADERS_PROVIDER"
  "HEADERS_SIGNATURE \<noteq> HEADERS_TIMESTAMP" "HEADERS_SIGNATURE \<noteq> HEADERS_ATTEMPT"
  "HEADERS_SIGNATURE \<noteq> HEADERS_REPLAYED"
  "HEADERS_REPLAYED \<noteq> HEADERS_EVENT_ID" "HEADERS_REPLAYED \<noteq> HEADERS_PROVIDER"
  "HEADERS_REPLAYED \<noteq> HEADERS_TIMESTAMP" "HEADERS_REPLAYED \<noteq> HEADERS_SIGNATURE"
  "HEADERS_REPLAYED \<noteq> HEADERS_ATTEMPT"
  "HEADERS_PROVIDER \<noteq> HEADERS_EVENT_ID" "HEADERS_PROVIDER \<noteq> HEADERS_TIMESTAMP"
  "HEADERS_PROVIDER \<noteq> HEADERS_SIGNATURE" "HEADERS_PROVIDER \<noteq> HEADERS_ATTEMPT"
  "HEADERS_PROVIDER \<noteq> HEADERS_REPLAYED"
  by (simp_all add: header_defs ascii_def)

lemmas eval_verify_defs =
  verifySignature_def parseInt10_def isStrWhiteSpaceChar_def isDecimalDigit_def
  digitsToInt_def digitValue_def TIMESTAMP_TOLERANCE_SECONDS_def startsWith_def sliceFrom_def
  signPayload_def hmacHexDigest_def testCrypto_def numberToString_def
  natToDigits.simps digitChar_def byteToHex_def toString16.simps padStart_def
  hexDigitChar_def SIGNATURE_VERSION_def ascii_def timingSafeEqual_eq

lemma test_verify:
  "verifySignature testCrypto 1000000 (ascii ''1000'') (ascii ''{}'') (ascii ''v1=0752'') (ascii ''k'') = Inr True"
  "verifySignature testCrypto 1000000 (ascii ''1000'') (ascii ''oops'') (ascii ''v1=0000'') (ascii ''k'') = Inr False"
  "verifySignature testCrypto 1000000 (ascii ''1000'') (ascii ''oops'') (ascii ''v1=091b'') (ascii ''k'') = Inr True"
  by (simp_all add: eval_verify_defs)

lemma test_clock: "clock testWorld (clockReads sys0) = 1000000" "webCrypto testWorld = testCrypto"
  by (simp_all add: testWorld_def sys0_def)

lemma test_json:
  "jsonParse testWorld (ascii ''{}'') = Some (JObject [])"
  "jsonParse testWorld (ascii ''oops'') = None"
  by (simp_all add: testWorld_def ascii_def)

lemma test_dispatch:
  "hookRelayHandler handler testOptions testWorld testRequest sys0 =
   executeHandler handler testWorld testEvent (ascii ''evt_1'') (ascii ''k'')
     (sys0\<lparr>clockReads := clockReads sys0 + 2\<rparr>)"
proof -
  have p: "req_headers_get testRequest HEADERS_PROVIDER = Some (opt_provider testOptions)"
    by (simp add: testRequest_def testOptions_def test_headers)
  have v: "verifySignature (webCrypto testWorld) (clock testWorld (clockReads sys0)) (ascii ''1000'')
             (req_text testRequest) (ascii ''v1=0752'') (ascii ''k'') = Inr True"
    by (simp add: test_clock testRequest_def test_verify)
  have j: "jsonParse testWorld (req_text testRequest) = Some (JObject [])"
    by (simp add: testRequest_def test_json)
  have r: "\<not> (req_headers_get testRequest HEADERS_REPLAYED = Some (ascii ''true'') \<and>
              opt_allowReplay testOptions = Some False)"
    by (simp add: testRequest_def test_headers)
  have e: "extractProviderEventId (ascii ''stripe'') (JObject []) = None"
    by (simp add: extractProviderEventId_def)
  show ?thesis
    using hookRelayHandler_dispatch [of testWorld "ascii ''k''" testRequest "ascii ''evt_1''"
        "ascii ''v1=0752''" "ascii ''1000''" testOptions sys0 "JObject []" handler,
        OF test_secret test_nonempty(1) _ test_nonempty(2) _ test_nonempty(4) _ test_nonempty(3) p v j r]
    by (simp add: testRequest_def test_headers testEvent_def testOptions_def e nullishOr_def
        falsy_def testWorld_def)
qed

lemma test_invoked:
  "handlerCalls (snd (hookRelayHandler handler testOptions testWorld testRequest sys0)) =
   handlerCalls sys0 @ [testEvent]"
  unfolding test_dispatch by (simp add: executeHandler_invokes)

section \<open>The gates of the wrapped handler\<close>

text \<open>
  C8. With the shared secret configured, a request that lacks the event-id, the
  signature or the timestamp header is answered with HTTP 400 and the body
  \<open>{error: "Missing required Hook Relay headers"}\<close>, whatever its other headers are:
  the provider header is not looked at, so a request that also names the wrong provider
  gets the missing-headers response. No effect takes place.
\<close>

theorem hookRelayHandler_missing_headers:
  assumes "processEnv w (ascii ''HOOKRELAY_SECRET'') = Some secret" and "secret \<noteq> []"
    and "req_headers_get request HEADERS_EVENT_ID = None \<or>
         req_headers_get request HEADERS_SIGNATURE = None \<or>
         req_headers_get request HEADERS_TIMESTAMP = None"
  shows "hookRelayHandler handler options w request s =
         (Inr \<lparr>resp_status = 400,
               resp_body = ErrorBody (ascii ''Missing required Hook Relay headers'')\<rparr>, s)"
  using assms by (auto simp add: hookRelayHandler_def Let_def falsy_def)

theorem hookRelayHandler_missing_headers_witness:
  "hookRelayHandler (\<lambda>e. Returned) testOptions testWorld
     (testRequest\<lparr>req_headers_get :=
        testHeaders(HEADERS_SIGNATURE := None, HEADERS_PROVIDER := Some (ascii ''github''))\<rparr>) sys0 =
     (Inr \<lparr>resp_status = 400,
           resp_body = ErrorBody (ascii ''Missing required Hook Relay headers'')\<rparr>, sys0) \<and>
   req_headers_get
     (testRequest\<lparr>req_headers_get :=
        testHeaders(HEADERS_SIGNATURE := None, HEADERS_PROVIDER := Some (ascii ''github''))\<rparr>)
     HEADERS_PROVIDER \<noteq> Some (opt_provider testOptions)"
proof -
  let ?request = "testRequest\<lparr>req_headers_get :=
        testHeaders(HEADERS_SIGNATURE := None, HEADERS_PROVIDER := Some (ascii ''github''))\<rparr>"
  have m: "req_headers_get ?request HEADERS_EVENT_ID = None \<or>
           req_headers_get ?request HEADERS_SIGNATURE = None \<or>
           req_headers_get ?request HEADERS_TIMESTAMP = None"
    by (simp add: header_names_distinct)
  have p: "req_headers_get ?request HEADERS_PROVIDER \<noteq> Some (opt_provider testOptions)"
    by (simp add: testOptions_def ascii_def)
  show ?thesis
    using hookRelayHandler_missing_headers [OF test_secret test_nonempty(1) m, of "\<lambda>e. Returned" testOptions sys0] p
    by simp
qed

text \<open>
  C2. The signature is checked before the body is parsed. For a request that passes the
  header checks (secret configured, the three required headers present and non-empty,
  provider as configured): if the signature does not verify, the response is HTTP 401
  with \<open>{error: "Invalid signature"}\<close>, whether or not the body is JSON; if it verifies
  and the body is not parseable JSON, the response is HTTP 400 with
  \<open>{error: "Invalid JSON payload"}\<close>. In both cases the only effect is the one reading
  of the clock by the verification: the callback is not invoked and nothing is reported.
\<close>

theorem hookRelayHandler_signature_before_json:
  assumes "processEnv w (ascii ''HOOKRELAY_SECRET'') = Some secret" and "secret \<noteq> []"
    and "req_headers_get request HEADERS_EVENT_ID = Some eventId" and "eventId \<noteq> []"
    and "req_headers_get request HEADERS_SIGNATURE = Some signature" and "signature \<noteq> []"
    and "req_headers_get request HEADERS_TIMESTAMP = Some timestamp" and "timestamp \<noteq> []"
    and "req_headers_get request HEADERS_PROVIDER = Some (opt_provider options)"
  shows "(verifySignature (webCrypto w) (clock w (clockReads s)) timestamp (req_text request)
            signature secret = Inr False \<longrightarrow>
          hookRelayHandler handler options w request s =
            (Inr \<lparr>resp_status = 401, resp_body = ErrorBody (ascii ''Invalid signature'')\<rparr>,
             s\<lparr>clockReads := clockReads s + 1\<rparr>)) \<and>
         (verifySignature (webCrypto w) (clock w (clockReads s)) timestamp (req_text request)
            signature secret = Inr True \<and> jsonParse w (req_text request) = None \<longrightarrow>
          hookRelayHandler handler options w request s =
            (Inr \<lparr>resp_status = 400, resp_body = ErrorBody (ascii ''Invalid JSON payload'')\<rparr>,
             s\<lparr>clockReads := clockReads s + 1\<rparr>))"
  using assms by (auto simp add: hookRelayHandler_def Let_def falsy_def dateNow_def)

theorem hookRelayHandler_signature_before_json_witness:
  "hookRelayHandler (\<lambda>e. Returned) testOptions testWorld
     \<lparr>req_headers_get = testHeaders(HEADERS_SIGNATURE := Some (ascii ''v1=0000'')),
      req_text = ascii ''oops''\<rparr> sys0 =
     (Inr \<lparr>resp_status = 401, resp_body = ErrorBody (ascii ''Invalid signature'')\<rparr>,
      sys0\<lparr>clockReads := clockReads sys0 + 1\<rparr>) \<and>
   hookRelayHandler (\<lambda>e. Returned) testOptions testWorld
     \<lparr>req_headers_get = testHeaders(HEADERS_SIGNATURE := Some (ascii ''v1=091b'')),
      req_text = ascii ''oops''\<rparr> sys0 =
     (Inr \<lparr>resp_status = 400, resp_body = ErrorBody (ascii ''Invalid JSON payload'')\<rparr>,
      sys0\<lparr>clockReads := clockReads sys0 + 1\<rparr>)"
proof -
  let ?bad = "\<lparr>req_headers_get = testHeaders(HEADERS_SIGNATURE := Some (ascii ''v1=0000'')),
      req_text = ascii ''oops''\<rparr>"
  let ?good = "\<lparr>req_headers_get = testHeaders(HEADERS_SIGNATURE := Some (ascii ''v1=091b'')),
      req_text = ascii ''oops''\<rparr>"
  have hb: "req_headers_get ?bad HEADERS_EVENT_ID = Some (ascii ''evt_1'')"
    "req_headers_get ?bad HEADERS_SIGNATURE = Some (ascii ''v1=0000'')"
    "req_headers_get ?bad HEADERS_TIMESTAMP = Some (ascii ''1000'')"
    "req_headers_get ?bad HEADERS_PROVIDER = Some (opt_provider testOptions)"
    by (simp_all add: test_headers header_names_distinct header_names_distinct [symmetric] testOptions_def)
  have hg: "req_headers_get ?good HEADERS_EVENT_ID = Some (ascii ''evt_1'')"
    "req_headers_get ?good HEADERS_SIGNATURE = Some (ascii ''v1=091b'')"
    "req_headers_get ?good HEADERS_TIMESTAMP = Some (ascii ''1000'')"
    "req_headers_get ?good HEADERS_PROVIDER = Some (opt_provider testOptions)"
    by (simp_all add: test_headers header_names_distinct header_names_distinct [symmetric] testOptions_def)
  have vb: "verifySignature (webCrypto testWorld) (clock testWorld (clockReads sys0)) (ascii ''1000'')
             (req_text ?bad) (ascii ''v1=0000'') (ascii ''k'') = Inr False"
    by (simp add: test_clock test_verify)
  have vg: "verifySignature (webCrypto testWorld) (clock testWorld (clockReads sys0)) (ascii ''1000'')
             (req_text ?good) (ascii ''v1=091b'') (ascii ''k'') = Inr True"
    by (simp add: test_clock test_verify)
  have j: "jsonParse testWorld (req_text ?good) = None"
    by (simp add: test_json)
  show ?thesis
    using hookRelayHandler_signature_before_json
        [OF test_secret test_nonempty(1) hb(1) test_nonempty(2) hb(2) test_nonempty(5)
            hb(3) test_nonempty(3) hb(4), of sys0 "\<lambda>e. Returned"]
      hookRelayHandler_signature_before_json
        [OF test_secret test_nonempty(1) hg(1) test_nonempty(2) hg(2) test_nonempty(6)
            hg(3) test_nonempty(3) hg(4), of sys0 "\<lambda>e. Returned"]
      vb vg j
    by simp
qed

text \<open>
  C6. For a request that has passed every earlier gate (headers, provider, signature,
  JSON), the response is HTTP 400 with \<open>{error: "Replayed events are not allowed"}\<close>
  exactly when the replayed header is literally \<open>"true"\<close> and the option
  \<open>allowReplay\<close> is explicitly \<open>false\<close>; then the callback is not invoked. In every
  other case (option unset or \<open>true\<close>, header absent or any other value) processing
  continues past the gate: the callback is invoked, once, with the event built from the
  request.
\<close>

theorem hookRelayHandler_replay_gate:
  "(fst (hookRelayHandler handler options w request s) =
      Inr \<lparr>resp_status = 400, resp_body = ErrorBody (ascii ''Replayed events are not allowed'')\<rparr> \<longrightarrow>
    req_headers_get request HEADERS_REPLAYED = Some (ascii ''true'') \<and>
    opt_allowReplay options = Some False) \<and>
   (processEnv w (ascii ''HOOKRELAY_SECRET'') = Some secret \<and> secret \<noteq> [] \<and>
    req_headers_get request HEADERS_EVENT_ID = Some eventId \<and> eventId \<noteq> [] \<and>
    req_headers_get request HEADERS_SIGNATURE = Some signature \<and> signature \<noteq> [] \<and>
    req_headers_get request HEADERS_TIMESTAMP = Some timestamp \<and> timestamp \<noteq> [] \<and>
    req_headers_get request HEADERS_PROVIDER = Some (opt_provider options) \<and>
    verifySignature (webCrypto w) (clock w (clockReads s)) timestamp (req_text request)
      signature secret = Inr True \<and>
    jsonParse w (req_text request) = Some payload \<longrightarrow>
      (if req_headers_get request HEADERS_REPLAYED = Some (ascii ''true'') \<and>
          opt_allowReplay options = Some False
       then fst (hookRelayHandler handler options w request s) =
              Inr \<lparr>resp_status = 400,
                    resp_body = ErrorBody (ascii ''Replayed events are not allowed'')\<rparr> \<and>
            handlerCalls (snd (hookRelayHandler handler options w request s)) = handlerCalls s
       else (\<exists>event.
              handlerCalls (snd (hookRelayHandler handler options w request s)) =
                handlerCalls s @ [event] \<and>
              ev_id event = eventId \<and> ev_payload event = payload \<and>
              ev_replayed event = (req_headers_get request HEADERS_REPLAYED = Some (ascii ''true'')))))"
proof (intro conjI impI)
  assume "fst (hookRelayHandler handler options w request s) =
      Inr \<lparr>resp_status = 400, resp_body = ErrorBody (ascii ''Replayed events are not allowed'')\<rparr>"
  then show "req_headers_get request HEADERS_REPLAYED = Some (ascii ''true'')"
    and "opt_allowReplay options = Some False"
    using replay_response_only_if by blast+
next
  assume g: "processEnv w (ascii ''HOOKRELAY_SECRET'') = Some secret \<and> secret \<noteq> [] \<and>
    req_headers_get request HEADERS_EVENT_ID = Some eventId \<and> eventId \<noteq> [] \<and>
    req_headers_get request HEADERS_SIGNATURE = Some signature \<and> signature \<noteq> [] \<and>
    req_headers_get request HEADERS_TIMESTAMP = Some timestamp \<and> timestamp \<noteq> [] \<and>
    req_headers_get request HEADERS_PROVIDER = Some (opt_provider options) \<and>
    verifySignature (webCrypto w) (clock w (clockReads s)) timestamp (req_text request)
      signature secret = Inr True \<and>
    jsonParse w (req_text request) = Some payload"
  show "if req_headers_get request HEADERS_REPLAYED = Some (ascii ''true'') \<and>
          opt_allowReplay options = Some False
       then fst (hookRelayHandler handler options w request s) =
              Inr \<lparr>resp_status = 400,
                    resp_body = ErrorBody (ascii ''Replayed events are not allowed'')\<rparr> \<and>
            handlerCalls (snd (hookRelayHandler handler options w request s)) = handlerCalls s
       else (\<exists>event.
              handlerCalls (snd (hookRelayHandler handler options w request s)) =
                handlerCalls s @ [event] \<and>
              ev_id event = eventId \<and> ev_payload event = payload \<and>
              ev_replayed event = (req_headers_get request HEADERS_REPLAYED = Some (ascii ''true'')))"
    using replay_gate_at [of w secret request eventId signature timestamp options s payload handler] g
    by (simp split: if_splits)
qed

theorem hookRelayHandler_replay_gate_witness:
  "fst (hookRelayHandler (\<lambda>e. Returned) (testOptions\<lparr>opt_allowReplay := Some False\<rparr>) testWorld
          (testRequest\<lparr>req_headers_get := testHeaders(HEADERS_REPLAYED := Some (ascii ''true''))\<rparr>) sys0) =
     Inr \<lparr>resp_status = 400, resp_body = ErrorBody (ascii ''Replayed events are not allowed'')\<rparr> \<and>
   handlerCalls (snd (hookRelayHandler (\<lambda>e. Returned) (testOptions\<lparr>opt_allowReplay := Some False\<rparr>) testWorld
          (testRequest\<lparr>req_headers_get := testHeaders(HEADERS_REPLAYED := Some (ascii ''true''))\<rparr>) sys0)) = [] \<and>
   fst (hookRelayHandler (\<lambda>e. Returned) testOptions testWorld
          (testRequest\<lparr>req_headers_get := testHeaders(HEADERS_REPLAYED := Some (ascii ''true''))\<rparr>) sys0) \<noteq>
     Inr \<lparr>resp_status = 400, resp_body = ErrorBody (ascii ''Replayed events are not allowed'')\<rparr> \<and>
   length (handlerCalls (snd (hookRelayHandler (\<lambda>e. Returned) testOptions testWorld
          (testRequest\<lparr>req_headers_get := testHeaders(HEADERS_REPLAYED := Some (ascii ''true''))\<rparr>) sys0))) = 1"
proof -
  let ?request = "testRequest\<lparr>req_headers_get := testHeaders(HEADERS_REPLAYED := Some (ascii ''true''))\<rparr>"
  let ?strict = "testOptions\<lparr>opt_allowReplay := Some False\<rparr>"
  have h: "req_headers_get ?request HEADERS_EVENT_ID = Some (ascii ''evt_1'')"
    "req_headers_get ?request HEADERS_SIGNATURE = Some (ascii ''v1=0752'')"
    "req_headers_get ?request HEADERS_TIMESTAMP = Some (ascii ''1000'')"
    by (simp_all add: test_headers header_names_distinct header_names_distinct [symmetric])
  have p: "req_headers_get ?request HEADERS_PROVIDER = Some (opt_provider ?strict)"
    "req_headers_get ?request HEADERS_PROVIDER = Some (opt_provider testOptions)"
    by (simp_all add: test_headers header_names_distinct testOptions_def)
  have v: "verifySignature (webCrypto testWorld) (clock testWorld (clockReads sys0)) (ascii ''1000'')
             (req_text ?request) (ascii ''v1=0752'') (ascii ''k'') = Inr True"
    by (simp add: test_clock testRequest_def test_verify)
  have j: "jsonParse testWorld (req_text ?request) = Some (JObject [])"
    by (simp add: testRequest_def test_json)
  have r: "req_headers_get ?request HEADERS_REPLAYED = Some (ascii ''true'')"
    "opt_allowReplay ?strict = Some False" "opt_allowReplay testOptions \<noteq> Some False"
    "handlerCalls sys0 = []"
    by (simp_all add: testOptions_def sys0_def)
  have g: "processEnv testWorld (ascii ''HOOKRELAY_SECRET'') = Some (ascii ''k'') \<and> ascii ''k'' \<noteq> [] \<and>
      req_headers_get ?request HEADERS_EVENT_ID = Some (ascii ''evt_1'') \<and> ascii ''evt_1'' \<noteq> [] \<and>
      req_headers_get ?request HEADERS_SIGNATURE = Some (ascii ''v1=0752'') \<and> ascii ''v1=0752'' \<noteq> [] \<and>
      req_headers_get ?request HEADERS_TIMESTAMP = Some (ascii ''1000'') \<and> ascii ''1000'' \<noteq> []"
    using test_secret test_nonempty h by simp
  have strict: "fst (hookRelayHandler (\<lambda>e. Returned) ?strict testWorld ?request sys0) =
       Inr \<lparr>resp_status = 400, resp_body = ErrorBody (ascii ''Replayed events are not allowed'')\<rparr> \<and>
     handlerCalls (snd (hookRelayHandler (\<lambda>e. Returned) ?strict testWorld ?request sys0)) = []"
    using hookRelayHandler_replay_gate
        [of "\<lambda>e. Returned" ?strict testWorld ?request sys0 "ascii ''k''" "ascii ''evt_1''"
            "ascii ''v1=0752''" "ascii ''1000''" "JObject []"]
      g p(1) v j r
    by simp
  have lax: "fst (hookRelayHandler (\<lambda>e. Returned) testOptions testWorld ?request sys0) \<noteq>
       Inr \<lparr>resp_status = 400, resp_body = ErrorBody (ascii ''Replayed events are not allowed'')\<rparr> \<and>
     length (handlerCalls (snd (hookRelayHandler (\<lambda>e. Returned) testOptions testWorld ?request sys0))) = 1"
    using hookRelayHandler_replay_gate
        [of "\<lambda>e. Returned" testOptions testWorld ?request sys0 "ascii ''k''" "ascii ''evt_1''"
            "ascii ''v1=0752''" "ascii ''1000''" "JObject []"]
      g p(2) v j r
    by auto
  show ?thesis using strict lax by simp
qed


section \<open>The outcome of the callback\<close>

text \<open>
  C5. When the callback is invoked (the run extends the record of invocations by an
  event) and completes successfully on that event, the handler sends exactly
  one outcome report, with status \<open>success\<close>, a numeric \<open>durationMs\<close> (the difference
  of two clock readings) and no error, and responds with HTTP 202 and
  \<open>{accepted: true, eventId}\<close>, where \<open>eventId\<close> is the event-id header of the request,
  whatever \<open>fetch\<close> does with the report: if the report
  succeeds nothing is logged, if it fails (a rejection or a response that is not ok) two
  lines are logged, the last by the handler, and the response is the same.
\<close>

theorem hookRelayHandler_callback_success:
  assumes "hookRelayHandler handler options w request s = (r, s')"
    and "handlerCalls s' = handlerCalls s @ [event]"
    and "handler event = Returned"
  shows "\<exists>call.
      fetchCalls s' = fetchCalls s @ [call] \<and>
      out_status (fc_body call) = Success \<and>
      out_error (fc_body call) = None \<and>
      out_durationMs (fc_body call) = clock w (clockReads s + 3) - clock w (clockReads s + 2) \<and>
      r = Inr \<lparr>resp_status = 202, resp_body = AcceptedBody True (ev_id event)\<rparr> \<and>
      req_headers_get request HEADERS_EVENT_ID = Some (ev_id event) \<and>
      ((\<exists>status statusText. fetchImpl w call = FetchResponse True status statusText) \<longrightarrow>
         consoleErrors s' = consoleErrors s) \<and>
      (\<not> (\<exists>status statusText. fetchImpl w call = FetchResponse True status statusText) \<longrightarrow>
         (\<exists>line. consoleErrors s' = consoleErrors s @
            [line, ascii ''[HookRelay] Failed to report success outcome for event '' @ ev_id event]))"
proof -
  from assms(1,2) have "handlerCalls (snd (hookRelayHandler handler options w request s)) \<noteq> handlerCalls s"
    by simp
  then obtain event0 secret s2 where d:
      "hookRelayHandler handler options w request s = executeHandler handler w event0 (ev_id event0) secret s2"
      "handlerCalls s2 = handlerCalls s" "fetchCalls s2 = fetchCalls s" "consoleErrors s2 = consoleErrors s"
      "clockReads s2 = clockReads s + 2"
      "req_headers_get request HEADERS_EVENT_ID = Some (ev_id event0)"
    using hookRelayHandler_invoked by blast
  have inv: "handlerCalls (snd (executeHandler handler w event0 (ev_id event0) secret s2)) = handlerCalls s2 @ [event0]"
    by (rule executeHandler_invokes)
  with assms(1,2) d have ev: "event0 = event" by simp
  let ?x = "executeHandler handler w event (ev_id event) secret s2"
  obtain call where c:
      "fst ?x = Inr \<lparr>resp_status = 202, resp_body = AcceptedBody True (ev_id event)\<rparr>"
      "fetchCalls (snd ?x) = fetchCalls s2 @ [call]"
      "fc_body call = \<lparr>out_status = Success,
                      out_durationMs = clock w (clockReads s2 + 1) - clock w (clockReads s2),
                      out_error = None\<rparr>"
      "(\<exists>status statusText. fetchImpl w call = FetchResponse True status statusText) \<longrightarrow>
        consoleErrors (snd ?x) = consoleErrors s2"
      "\<not> (\<exists>status statusText. fetchImpl w call = FetchResponse True status statusText) \<longrightarrow>
        (\<exists>line. consoleErrors (snd ?x) =
           consoleErrors s2 @ [line, ascii ''[HookRelay] Failed to report success outcome for event '' @ ev_id event])"
    using executeHandler_Returned [of handler event w "ev_id event" secret s2] assms(3) by blast
  have x: "?x = (r, s')" using d(1) ev assms(1) by simp
  have dur: "out_durationMs (fc_body call) = clock w (clockReads s + 3) - clock w (clockReads s + 2)"
    using c(3) d(5) by (simp add: numeral_3_eq_3 numeral_2_eq_2)
  show ?thesis
    using c dur d(3,4,6) ev unfolding x by (intro exI [of _ call]) simp
qed

theorem hookRelayHandler_callback_success_witness:
  "\<exists>call line.
     hookRelayHandler (\<lambda>e. Returned) testOptions testWorld testRequest sys0 =
       (Inr \<lparr>resp_status = 202, resp_body = AcceptedBody True (ascii ''evt_1'')\<rparr>,
        \<lparr>clockReads = 4, fetchCalls = [call],
         consoleErrors = [line, ascii ''[HookRelay] Failed to report success outcome for event evt_1''],
         handlerCalls = [testEvent]\<rparr>) \<and>
     out_status (fc_body call) = Success \<and>
     fetchImpl testWorld call = FetchRejected (ascii ''TypeError: fetch failed'')"
proof -
  let ?X = "hookRelayHandler (\<lambda>e. Returned) testOptions testWorld testRequest sys0"
  have x: "?X = (fst ?X, snd ?X)" by simp
  have f: "\<And>call. \<not> (\<exists>status statusText. fetchImpl testWorld call = FetchResponse True status statusText)"
    "\<And>call. fetchImpl testWorld call = FetchRejected (ascii ''TypeError: fetch failed'')"
    by (simp_all add: testWorld_def)
  have c: "clockReads (snd ?X) = 4"
    unfolding test_dispatch
    by (simp add: executeHandler_def reportOutcome_def dateNow_def consoleError_def Let_def
        split_def sys0_def testWorld_def)
  obtain call line where
    "fetchCalls (snd ?X) = fetchCalls sys0 @ [call]" "out_status (fc_body call) = Success"
    "fst ?X = Inr \<lparr>resp_status = 202, resp_body = AcceptedBody True (ev_id testEvent)\<rparr>"
    "consoleErrors (snd ?X) = consoleErrors sys0 @
       [line, ascii ''[HookRelay] Failed to report success outcome for event '' @ ev_id testEvent]"
    using hookRelayHandler_callback_success [OF x test_invoked] f(1) by auto
  with c test_invoked [of "\<lambda>e. Returned"] f(2) [of call]
  have "?X = (Inr \<lparr>resp_status = 202, resp_body = AcceptedBody True (ascii ''evt_1'')\<rparr>,
        \<lparr>clockReads = 4, fetchCalls = [call],
         consoleErrors = [line, ascii ''[HookRelay] Failed to report success outcome for event evt_1''],
         handlerCalls = [testEvent]\<rparr>) \<and>
     out_status (fc_body call) = Success \<and>
     fetchImpl testWorld call = FetchRejected (ascii ''TypeError: fetch failed'')"
    by (cases ?X, cases "snd ?X") (simp add: sys0_def testEvent_def ascii_def)
  then show ?thesis by blast
qed

text \<open>
  When the callback is invoked and throws (or its promise rejects), what happens depends
  on the \<open>errorInfo\<close> of the \<open>catch\<close> block. For an \<open>Error\<close> instance, and for any
  other value that \<open>String\<close> converts, the handler sends exactly one outcome report, with
  status \<open>failure\<close> and the captured name, message and stack, and responds with HTTP 500
  and \<open>{error: message, eventId}\<close>. For a value whose conversion throws, the exception
  leaves the handler and nothing is reported.
\<close>

lemma callback_throws_outcome:
  assumes "hookRelayHandler handler options w request s = (r, s')"
    and "handlerCalls s' = handlerCalls s @ [event]"
    and "handler event = Threw error"
  shows "req_headers_get request HEADERS_EVENT_ID = Some (ev_id event) \<and>
      (\<forall>info. errorInfoOf error = Inr info \<longrightarrow>
         (\<exists>call. fetchCalls s' = fetchCalls s @ [call] \<and>
                 out_status (fc_body call) = Failure \<and>
                 out_error (fc_body call) = Some info \<and>
                 r = Inr \<lparr>resp_status = 500,
                           resp_body = ErrorEventBody (err_message info) (ev_id event)\<rparr>)) \<and>
      (\<forall>e. errorInfoOf error = Inl e \<longrightarrow>
         r = Inl e \<and> fetchCalls s' = fetchCalls s \<and> consoleErrors s' = consoleErrors s)"
proof -
  from assms(1,2) have "handlerCalls (snd (hookRelayHandler handler options w request s)) \<noteq> handlerCalls s"
    by simp
  then obtain event0 secret s2 where d:
      "hookRelayHandler handler options w request s = executeHandler handler w event0 (ev_id event0) secret s2"
      "handlerCalls s2 = handlerCalls s" "fetchCalls s2 = fetchCalls s" "consoleErrors s2 = consoleErrors s"
      "req_headers_get request HEADERS_EVENT_ID = Some (ev_id event0)"
    using hookRelayHandler_invoked by blast
  have inv: "handlerCalls (snd (executeHandler handler w event0 (ev_id event0) secret s2)) = handlerCalls s2 @ [event0]"
    by (rule executeHandler_invokes)
  with assms(1,2) d have ev: "event0 = event" by simp
  have x: "executeHandler handler w event (ev_id event) secret s2 = (r, s')"
    using d(1) ev assms(1) by simp
  have contained: "\<exists>call. fetchCalls s' = fetchCalls s @ [call] \<and>
                 out_status (fc_body call) = Failure \<and>
                 out_error (fc_body call) = Some info \<and>
                 r = Inr \<lparr>resp_status = 500,
                           resp_body = ErrorEventBody (err_message info) (ev_id event)\<rparr>"
    if i: "errorInfoOf error = Inr info" for info
  proof -
    obtain call where c:
      "fst (executeHandler handler w event (ev_id event) secret s2) =
         Inr \<lparr>resp_status = 500, resp_body = ErrorEventBody (err_message info) (ev_id event)\<rparr>"
      "fetchCalls (snd (executeHandler handler w event (ev_id event) secret s2)) = fetchCalls s2 @ [call]"
      "fc_body call = \<lparr>out_status = Failure,
                      out_durationMs = clock w (clockReads s2 + 1) - clock w (clockReads s2),
                      out_error = Some info\<rparr>"
      using executeHandler_Threw [of handler event error info w "ev_id event" secret s2] assms(3) i
      by blast
    from c(1,2) d(3) have "fetchCalls s' = fetchCalls s @ [call]"
      and "r = Inr \<lparr>resp_status = 500, resp_body = ErrorEventBody (err_message info) (ev_id event)\<rparr>"
      unfolding x by simp_all
    with c(3) show ?thesis by (intro exI [of _ call]) simp
  qed
  have escapes: "r = Inl e \<and> fetchCalls s' = fetchCalls s \<and> consoleErrors s' = consoleErrors s"
    if i: "errorInfoOf error = Inl e" for e
    using executeHandler_Threw_escapes [of handler event error e w "ev_id event" secret s2] assms(3) i
      d(3,4) unfolding x by auto
  show ?thesis using d(5) ev contained escapes by blast
qed

text \<open>
  C4. The containment of callback failures has a gap. The \<open>catch\<close> block evaluates
  \<open>String(error)\<close> for a thrown value that is not an \<open>Error\<close> instance, with nothing
  around it. When the callback is invoked and throws a value whose conversion throws an
  exception \<open>e\<close> (as \<open>Object.create(null)\<close> does, with a \<open>TypeError\<close>), the handler's
  promise rejects with \<open>e\<close>: the error propagates to the caller, no outcome report is
  sent, nothing is logged and no HTTP 500 is returned.
\<close>

theorem hookRelayHandler_callback_failure_escapes:
  assumes "hookRelayHandler handler options w request s = (r, s')"
    and "handlerCalls s' = handlerCalls s @ [event]"
    and "handler event = Threw (NonError (Inl e))"
  shows "r = Inl e \<and> fetchCalls s' = fetchCalls s \<and> consoleErrors s' = consoleErrors s"
proof -
  have "errorInfoOf (NonError (Inl e)) = Inl e" by (simp add: errorInfoOf_def)
  then show ?thesis using callback_throws_outcome [OF assms] by blast
qed

theorem hookRelayHandler_callback_failure_escapes_witness:
  "hookRelayHandler
     (\<lambda>event. Threw (NonError (Inl (JsError (ascii ''TypeError'')
                                     (ascii ''Cannot convert object to primitive value'')))))
     testOptions testWorld testRequest sys0 =
     (Inl (JsError (ascii ''TypeError'') (ascii ''Cannot convert object to primitive value'')),
      \<lparr>clockReads = 4, fetchCalls = [], consoleErrors = [], handlerCalls = [testEvent]\<rparr>)"
proof -
  let ?e = "JsError (ascii ''TypeError'') (ascii ''Cannot convert object to primitive value'')"
  let ?h = "\<lambda>event::hookrelay_event. Threw (NonError (Inl ?e))"
  let ?X = "hookRelayHandler ?h testOptions testWorld testRequest sys0"
  have x: "?X = (fst ?X, snd ?X)" by simp
  have t: "?h testEvent = Threw (NonError (Inl ?e))" by simp
  have c: "clockReads (snd ?X) = 4"
    unfolding test_dispatch
    by (simp add: executeHandler_def errorInfoOf_def dateNow_def Let_def split_def sys0_def)
  have "fst ?X = Inl ?e \<and> fetchCalls (snd ?X) = fetchCalls sys0 \<and>
        consoleErrors (snd ?X) = consoleErrors sys0"
    using hookRelayHandler_callback_failure_escapes [OF x test_invoked t] .
  with c test_invoked [of ?h] show ?thesis
    by (cases ?X, cases "snd ?X") (simp add: sys0_def)
qed

section \<open>The outcome endpoint\<close>

text \<open>
  C9. Every call of \<open>reportOutcome\<close> makes exactly one call of \<open>fetch\<close>, to the URL
  \<open>{base}/v1/events/{eventId}/outcome\<close>, where \<open>base\<close> is the \<open>apiUrl\<close> argument when
  one is given, otherwise the value of \<open>HOOKRELAY_API_URL\<close> when the environment has
  one, otherwise \<open>https://api.hookrelay.io\<close>.
\<close>

theorem reportOutcome_url:
  "\<exists>call.
     fetchCalls (snd (reportOutcome w eventId outcome secret apiUrl s)) = fetchCalls s @ [call] \<and>
     (\<forall>u. apiUrl = Some u \<longrightarrow>
        fc_url call = u @ ascii ''/v1/events/'' @ eventId @ ascii ''/outcome'') \<and>
     (\<forall>v. apiUrl = None \<and> processEnv w (ascii ''HOOKRELAY_API_URL'') = Some v \<longrightarrow>
        fc_url call = v @ ascii ''/v1/events/'' @ eventId @ ascii ''/outcome'') \<and>
     (apiUrl = None \<and> processEnv w (ascii ''HOOKRELAY_API_URL'') = None \<longrightarrow>
        fc_url call = ascii ''https://api.hookrelay.io'' @ ascii ''/v1/events/'' @ eventId @ ascii ''/outcome'')"
  using reportOutcome_effects [of w eventId outcome secret apiUrl s]
  by (auto simp add: DEFAULT_API_URL_def)

theorem reportOutcome_url_witness:
  "fc_url (last (fetchCalls (snd (reportOutcome
       (testWorld\<lparr>processEnv := (processEnv testWorld)(ascii ''HOOKRELAY_API_URL'' := Some (ascii ''https://env.test''))\<rparr>)
       (ascii ''evt_1'')
       \<lparr>out_status = Success, out_durationMs = 7, out_error = None\<rparr> (ascii ''k'')
       (Some (ascii ''https://arg.test'')) sys0)))) =
     ascii ''https://arg.test/v1/events/evt_1/outcome'' \<and>
   fc_url (last (fetchCalls (snd (reportOutcome
       (testWorld\<lparr>processEnv := (processEnv testWorld)(ascii ''HOOKRELAY_API_URL'' := Some (ascii ''https://env.test''))\<rparr>)
       (ascii ''evt_1'')
       \<lparr>out_status = Success, out_durationMs = 7, out_error = None\<rparr> (ascii ''k'') None sys0)))) =
     ascii ''https://env.test/v1/events/evt_1/outcome'' \<and>
   fc_url (last (fetchCalls (snd (reportOutcome testWorld (ascii ''evt_1'')
       \<lparr>out_status = Success, out_durationMs = 7, out_error = None\<rparr> (ascii ''k'') None sys0)))) =
     ascii ''https://api.hookrelay.io/v1/events/evt_1/outcome''"
proof -
  let ?w = "testWorld\<lparr>processEnv := (processEnv testWorld)(ascii ''HOOKRELAY_API_URL'' := Some (ascii ''https://env.test''))\<rparr>"
  let ?o = "\<lparr>out_status = Success, out_durationMs = 7, out_error = None\<rparr>"
  have e: "processEnv ?w (ascii ''HOOKRELAY_API_URL'') = Some (ascii ''https://env.test'')"
    "processEnv testWorld (ascii ''HOOKRELAY_API_URL'') = None"
    by (simp_all add: testWorld_def ascii_def)
  show ?thesis
    using reportOutcome_url [of ?w "ascii ''evt_1''" ?o "ascii ''k''" "Some (ascii ''https://arg.test'')" sys0]
      reportOutcome_url [of ?w "ascii ''evt_1''" ?o "ascii ''k''" None sys0]
      reportOutcome_url [of testWorld "ascii ''evt_1''" ?o "ascii ''k''" None sys0]
    by (simp only: e) (auto simp add: ascii_def)
qed

end
